theory Spec2Isabelle
  imports Main "HOL-Library.Sublist"
begin

section \<open>Strings and paths\<close>

text \<open>
  Python strings are modelled as \<open>string\<close>. The path functions follow \<^verbatim>\<open>posixpath\<close>:
  \<^verbatim>\<open>os.path.basename\<close> is the text after the last slash, \<^verbatim>\<open>os.path.dirname\<close> the text
  before it with trailing slashes stripped (unless it consists of slashes only), and
  \<^verbatim>\<open>os.path.join\<close> inserts a slash unless the first part is empty or ends in one, and
  restarts at an absolute second part. Paths are compared literally: no normalisation.
\<close>

definition lower_char :: "char \<Rightarrow> char" where
  "lower_char c =
     (case map_of (zip ''ABCDEFGHIJKLMNOPQRSTUVWXYZ'' ''abcdefghijklmnopqrstuvwxyz'') c of
        None \<Rightarrow> c
      | Some l \<Rightarrow> l)"

definition lower :: "string \<Rightarrow> string" where
  "lower s = map lower_char s"

definition endswith :: "string \<Rightarrow> string \<Rightarrow> bool" where
  "endswith s suf = suffix suf s"

definition startswith :: "string \<Rightarrow> string \<Rightarrow> bool" where
  "startswith s pre = prefix pre s"

definition basename :: "string \<Rightarrow> string" where
  "basename p = rev (takeWhile (\<lambda>c. c \<noteq> CHR ''/'') (rev p))"

definition rstrip_slash :: "string \<Rightarrow> string" where
  "rstrip_slash s = rev (dropWhile (\<lambda>c. c = CHR ''/'') (rev s))"

definition dirname :: "string \<Rightarrow> string" where
  "dirname p =
     (let h = rev (dropWhile (\<lambda>c. c \<noteq> CHR ''/'') (rev p))
      in if h \<noteq> [] \<and> \<not> list_all (\<lambda>c. c = CHR ''/'') h then rstrip_slash h else h)"

definition path_join :: "string \<Rightarrow> string \<Rightarrow> string" where
  "path_join a b =
     (if startswith b ''/'' then b
      else if a = [] \<or> endswith a ''/'' then a @ b
      else a @ ''/'' @ b)"

section \<open>Exceptions, the world and the file system\<close>

text \<open>
  One constructor per \<^verbatim>\<open>raise\<close> site of the two source files (the message arguments are
  the constructor arguments), plus the built-in exceptions the modelled library calls
  raise. \<open>External\<close> is any exception raised by a collaborator that is not under
  \<^verbatim>\<open>src/\<close> (staging backend, HTTP client, subprocess, pickler).
\<close>

datatype exn =
    StagingLocationMissing
  | RequirementsFileNotFound string
  | SetupFileNotFound string
  | SetupFileBadName string
  | ExtraPackageBadExtension string
  | ExtraPackageNotFound string
  | JarPackageBadExtension string
  | JarPackageNotFound string
  | ArtifactNotFound string nat
  | SdistOutputNotFound string
  | UnrecognizedSdkWheel string
  | UnsupportedSdkLocation string
  | NoSdkDistribution string
  | SdkDownloadFailed exn
  | SdkDistributionMissing "string list"
  | DefaultSdkTarNotFound string
  | SdkFileNotFound string
  | MissingLicenses "string list"
  | BashCommandError string
  | CalledProcessError int
  | ValueError string
  | KeyError string
  | AttributeError string
  | UnboundLocalError string
  | FileExistsError string
  | FileNotFoundError string
  | IsADirectoryError string
  | SameFileError string
  | NotImplementedError
  | RetryError
  | External string

text \<open>
  \<open>is_RuntimeError e\<close>: the exception is an instance of Python's \<^verbatim>\<open>RuntimeError\<close>
  (what \<^verbatim>\<open>except RuntimeError\<close> catches). \<^verbatim>\<open>NotImplementedError\<close> is a subclass of it.
\<close>

fun is_RuntimeError :: "exn \<Rightarrow> bool" where
  "is_RuntimeError StagingLocationMissing = True"
| "is_RuntimeError (RequirementsFileNotFound _) = True"
| "is_RuntimeError (SetupFileNotFound _) = True"
| "is_RuntimeError (SetupFileBadName _) = True"
| "is_RuntimeError (ExtraPackageBadExtension _) = True"
| "is_RuntimeError (ExtraPackageNotFound _) = True"
| "is_RuntimeError (JarPackageBadExtension _) = True"
| "is_RuntimeError (JarPackageNotFound _) = True"
| "is_RuntimeError (ArtifactNotFound _ _) = True"
| "is_RuntimeError (SdistOutputNotFound _) = True"
| "is_RuntimeError (UnrecognizedSdkWheel _) = True"
| "is_RuntimeError (UnsupportedSdkLocation _) = True"
| "is_RuntimeError (NoSdkDistribution _) = True"
| "is_RuntimeError (SdkDownloadFailed _) = True"
| "is_RuntimeError (SdkDistributionMissing _) = True"
| "is_RuntimeError (DefaultSdkTarNotFound _) = True"
| "is_RuntimeError (SdkFileNotFound _) = True"
| "is_RuntimeError (MissingLicenses _) = True"
| "is_RuntimeError (BashCommandError _) = True"
| "is_RuntimeError NotImplementedError = True"
| "is_RuntimeError _ = False"

text \<open>
  The file system maps a directory path to its regular files, as (name, content) pairs in
  creation order. A path is a directory iff it is in the domain of the map. The empty
  path is the current directory. Sub-directories are keys of their own and are not
  listed among the entries of their parent.
\<close>

type_synonym filesys = "string \<rightharpoonup> (string \<times> string) list"

text \<open>
  The world: the local file system, the number of temporary names drawn so far, and the
  observable effects in order: the URLs requested, the command lines run, the sleep
  intervals, the (local path, artifact name) pairs handed to the staging backend, and the
  number of manifests committed.
\<close>

record world =
  fs :: filesys
  tmp_seq :: nat
  http_log :: "string list"
  proc_log :: "string list list"
  sleeps :: "nat list"
  staged :: "(string \<times> string) list"
  commits :: nat

definition initial_world :: "filesys \<Rightarrow> world" where
  "initial_world f =
     \<lparr>fs = f, tmp_seq = 0, http_log = [], proc_log = [], sleeps = [], staged = [], commits = 0\<rparr>"

type_synonym 'a m = "world \<Rightarrow> (exn + 'a) \<times> world"

definition return :: "'a \<Rightarrow> 'a m" where
  "return x w = (Inr x, w)"

definition raise :: "exn \<Rightarrow> 'a m" where
  "raise e w = (Inl e, w)"

definition bindE :: "'a m \<Rightarrow> ('a \<Rightarrow> 'b m) \<Rightarrow> 'b m" where
  "bindE f g w = (case f w of (Inl e, w') \<Rightarrow> (Inl e, w') | (Inr x, w') \<Rightarrow> g x w')"

text \<open>\<open>map_error h f\<close>: \<open>f\<close>, with an exception \<open>e\<close> raised again as \<open>h e\<close>.\<close>

definition map_error :: "(exn \<Rightarrow> exn) \<Rightarrow> 'a m \<Rightarrow> 'a m" where
  "map_error h f w = (case f w of (Inl e, w') \<Rightarrow> (Inl (h e), w') | (Inr x, w') \<Rightarrow> (Inr x, w'))"

definition lift :: "exn + 'a \<Rightarrow> 'a m" where
  "lift r w = (r, w)"

definition isdir :: "filesys \<Rightarrow> string \<Rightarrow> bool" where
  "isdir f p = (f p \<noteq> None)"

definition isfile :: "filesys \<Rightarrow> string \<Rightarrow> bool" where
  "isfile f p =
     (case f (dirname p) of None \<Rightarrow> False
      | Some es \<Rightarrow> basename p \<noteq> [] \<and> basename p \<in> fst ` set es)"

definition exists :: "filesys \<Rightarrow> string \<Rightarrow> bool" where
  "exists f p = (isfile f p \<or> isdir f p)"

definition put_entry :: "string \<Rightarrow> string \<Rightarrow> (string \<times> string) list \<Rightarrow> (string \<times> string) list" where
  "put_entry n c es =
     (if n \<in> fst ` set es then map (\<lambda>(k, v). if k = n then (k, c) else (k, v)) es
      else es @ [(n, c)])"

definition mkdir :: "string \<Rightarrow> unit m" where
  "mkdir p w =
     (if exists (fs w) p then (Inl (FileExistsError p), w)
      else if \<not> isdir (fs w) (dirname p) then (Inl (FileNotFoundError p), w)
      else (Inr (), w\<lparr>fs := (fs w)(p \<mapsto> [])\<rparr>))"

fun parents_acc :: "string \<Rightarrow> string \<Rightarrow> string list" where
  "parents_acc acc [] = []"
| "parents_acc acc (c # cs) =
     (if c = CHR ''/'' \<and> acc \<noteq> [] then [acc] else []) @ parents_acc (acc @ [c]) cs"

definition makedirs :: "string \<Rightarrow> unit m" where
  "makedirs p w =
     (if exists (fs w) p then (Inl (FileExistsError p), w)
      else (Inr (), w\<lparr>fs := (\<lambda>q. if q \<in> set (p # parents_acc [] p) \<and> fs w q = None
                                   then Some [] else fs w q)\<rparr>))"

definition write_file :: "string \<Rightarrow> string \<Rightarrow> unit m" where
  "write_file p c w =
     (if isdir (fs w) p \<or> basename p = [] then (Inl (IsADirectoryError p), w)
      else case fs w (dirname p) of
             None \<Rightarrow> (Inl (FileNotFoundError p), w)
           | Some es \<Rightarrow> (Inr (), w\<lparr>fs := (fs w)(dirname p \<mapsto> put_entry (basename p) c es)\<rparr>))"

definition read_file :: "filesys \<Rightarrow> string \<Rightarrow> string" where
  "read_file f p = (case f (dirname p) of None \<Rightarrow> [] | Some es \<Rightarrow>
     (case map_of es (basename p) of None \<Rightarrow> [] | Some c \<Rightarrow> c))"

definition copyfile :: "string \<Rightarrow> string \<Rightarrow> unit m" where
  "copyfile src dst w =
     (if \<not> isfile (fs w) src then (Inl (FileNotFoundError src), w)
      else if src = dst then (Inl (SameFileError src), w)
      else write_file dst (read_file (fs w) src) w)"

definition under :: "string \<Rightarrow> string \<Rightarrow> bool" where
  "under d q = (q = d \<or> prefix (d @ ''/'') q)"

definition rmtree :: "string \<Rightarrow> unit m" where
  "rmtree p w =
     (if \<not> isdir (fs w) p then (Inl (FileNotFoundError p), w)
      else (Inr (), w\<lparr>fs := (\<lambda>q. if under p q then None else fs w q)\<rparr>))"

definition copytree :: "string \<Rightarrow> string \<Rightarrow> unit m" where
  "copytree src dst w =
     (case fs w src of
        None \<Rightarrow> (Inl (FileNotFoundError src), w)
      | Some es \<Rightarrow> bindE (makedirs dst) (\<lambda>_ w'. (Inr (), w'\<lparr>fs := (fs w')(dst \<mapsto> es)\<rparr>)) w)"

text \<open>
  \<^verbatim>\<open>os.listdir\<close> returns the entries in arbitrary order: the names are sorted by a key
  \<open>listdir_key\<close> of the environment (names with equal keys stay in creation order), so
  that every listing is a permutation of the entries.
\<close>

record os_env =
  listdir_key :: "string \<Rightarrow> nat"

definition listdir :: "'e os_env_scheme \<Rightarrow> string \<Rightarrow> string list m" where
  "listdir env p w =
     (case fs w p of None \<Rightarrow> (Inl (FileNotFoundError p), w)
      | Some es \<Rightarrow> (Inr (sort_key (listdir_key env) (map fst es)), w))"

text \<open>
  \<^verbatim>\<open>@retry(stop=stop_after_attempt(n))\<close> of the tenacity library: the call is repeated,
  without waiting, whenever it raises; after the \<open>n\<close>-th failed attempt
  \<^verbatim>\<open>RetryError\<close> is raised.
\<close>

fun retry_stop_after_attempt :: "nat \<Rightarrow> 'a m \<Rightarrow> 'a m" where
  "retry_stop_after_attempt 0 f w = (Inl RetryError, w)"
| "retry_stop_after_attempt (Suc n) f w =
     (case f w of (Inr x, w') \<Rightarrow> (Inr x, w')
      | (Inl e, w') \<Rightarrow> retry_stop_after_attempt n f w')"

section \<open>The license puller (pull_licenses_py.py)\<close>

text \<open>
  A dependency is one object of the \<^verbatim>\<open>pip-licenses --with-license-file --format=json\<close>
  output; the script reads its keys \<^verbatim>\<open>Name\<close> and \<^verbatim>\<open>LicenseFile\<close>. A config is one entry of
  \<^verbatim>\<open>dep_urls_py.yaml\<close>: a dictionary with the key \<^verbatim>\<open>license\<close> and the optional key
  \<^verbatim>\<open>notice\<close>. Calls of \<^verbatim>\<open>print\<close> are left out.
\<close>

record dep =
  Name :: string
  LicenseFile :: string

type_synonym config = "string \<rightharpoonup> string"

type_synonym configs = "string \<rightharpoonup> config"

record license_env = os_env +
  wget_content :: "string \<Rightarrow> string option"
  dep_config :: "exn + (string \<rightharpoonup> configs)"
  pip_licenses :: "exn + dep list"

text \<open>
  \<^verbatim>\<open>wget.download(url, out)\<close>: the content served at \<open>url\<close> is written to \<open>out\<close>, or the
  call raises. Every call is recorded in \<open>http_log\<close>.
\<close>

definition wget_download :: "license_env \<Rightarrow> string \<Rightarrow> string \<Rightarrow> unit m" where
  "wget_download env url out w =
     (let w1 = w\<lparr>http_log := http_log w @ [url]\<rparr>
      in case wget_content env url of
           None \<Rightarrow> (Inl (External ''wget''), w1)
         | Some c \<Rightarrow> write_file out c w1)"

text \<open>\<^verbatim>\<open>shutil.copy(src, dst)\<close> with \<open>dst\<close> a file path.\<close>

definition shutil_copy :: "string \<Rightarrow> string \<Rightarrow> unit m" where
  "shutil_copy src dst w =
     (if \<not> isfile (fs w) src then (Inl (FileNotFoundError src), w)
      else write_file dst (read_file (fs w) src) w)"

definition license_dir :: string where
  "license_dir = ''/opt/apache/beam/third_party_licenses''"

text \<open>The body of \<^verbatim>\<open>copy_license_files\<close>, lines 53 to 67.\<close>

definition copy_license_files_body :: "dep \<Rightarrow> bool m" where
  "copy_license_files_body d w =
     (let source_license_file = LicenseFile d in
      if lower source_license_file = ''unknown'' then (Inr False, w)
      else
        let name = lower (Name d);
            dest_dir = license_dir @ ''/'' @ name
        in case bindE (mkdir dest_dir)
                  (\<lambda>_. shutil_copy source_license_file (dest_dir @ ''/LICENSE'')) w of
             (Inr _, w') \<Rightarrow> (Inr True, w')
           | (Inl e, w') \<Rightarrow> (Inr False, w'))"

definition copy_license_files :: "dep \<Rightarrow> bool m" where
  "copy_license_files d = retry_stop_after_attempt 3 (copy_license_files_body d)"

text \<open>
  The \<^verbatim>\<open>try\<close> block of \<^verbatim>\<open>pull_from_url\<close>, lines 87 to 108. It ends with the assignment
  \<^verbatim>\<open>result = True\<close>, so a normal end of the block leaves \<open>result\<close> bound to \<open>True\<close>.
\<close>

definition pull_try_block :: "license_env \<Rightarrow> string \<Rightarrow> config \<Rightarrow> string \<Rightarrow> string \<Rightarrow> unit m" where
  "pull_try_block env d config dest_dir cur_temp_dir =
     bindE (\<lambda>w. case config ''license'' of
                  None \<Rightarrow> (Inl (KeyError ''license''), w)
                | Some lic \<Rightarrow>
                    if lic = ''skip'' then (Inr (), w)
                    else if lic = ''manual'' then
                      copyfile (''/tmp/manual_licenses/'' @ d @ ''/LICENSE'')
                        (cur_temp_dir @ ''/LICENSE'') w
                    else wget_download env lic (cur_temp_dir @ ''/LICENSE'') w)
     (\<lambda>_. bindE (\<lambda>w. case config ''notice'' of
                        None \<Rightarrow> (Inr (), w)
                      | Some url \<Rightarrow> wget_download env url (cur_temp_dir @ ''/NOTICE'') w)
     (\<lambda>_. bindE (listdir env cur_temp_dir)
     (\<lambda>ls. if ls \<noteq> [] then copytree cur_temp_dir dest_dir else return ())))"

text \<open>
  The \<^verbatim>\<open>except Exception as e\<close> handler, lines 110 to 113. The argument of \<^verbatim>\<open>print\<close>
  evaluates \<^verbatim>\<open>e.decode('utf-8')\<close>; an exception object has no attribute \<^verbatim>\<open>decode\<close>, so
  the handler raises \<^verbatim>\<open>AttributeError\<close> before it reaches \<^verbatim>\<open>result = False\<close>.
  The handler returns the exception it leaves pending (if any) and the value of
  \<open>result\<close> (\<open>None\<close>: unbound).
\<close>

definition pull_except_handler :: "exn \<Rightarrow> exn option \<times> bool option" where
  "pull_except_handler e = (Some (AttributeError ''decode''), None)"

text \<open>
  The \<^verbatim>\<open>finally\<close> block, lines 115 and 116: \<^verbatim>\<open>return result\<close> discards a pending
  exception, and raises \<^verbatim>\<open>UnboundLocalError\<close> when \<open>result\<close> is unbound.
\<close>

definition pull_finally :: "string \<Rightarrow> exn option \<Rightarrow> bool option \<Rightarrow> bool m" where
  "pull_finally cur_temp_dir pending result =
     bindE (rmtree cur_temp_dir)
       (\<lambda>_. case result of None \<Rightarrow> raise (UnboundLocalError ''result'') | Some b \<Rightarrow> return b)"

definition pull_from_url_body :: "license_env \<Rightarrow> string \<Rightarrow> configs \<Rightarrow> bool m" where
  "pull_from_url_body env d cfgs w =
     (case cfgs d of
        None \<Rightarrow> (Inr False, w)
      | Some config \<Rightarrow>
          let dest_dir = license_dir @ ''/'' @ d;
              cur_temp_dir = ''temp_license_'' @ d
          in case mkdir cur_temp_dir w of
               (Inl e, w1) \<Rightarrow> (Inl e, w1)
             | (Inr _, w1) \<Rightarrow>
                 (case pull_try_block env d config dest_dir cur_temp_dir w1 of
                    (Inr _, w2) \<Rightarrow> pull_finally cur_temp_dir None (Some True) w2
                  | (Inl e, w2) \<Rightarrow>
                      pull_finally cur_temp_dir (fst (pull_except_handler e))
                        (snd (pull_except_handler e)) w2))"

definition pull_from_url :: "license_env \<Rightarrow> string \<Rightarrow> configs \<Rightarrow> bool m" where
  "pull_from_url env d cfgs = retry_stop_after_attempt 3 (pull_from_url_body env d cfgs)"

text \<open>
  The condition of line 135 and 136:
  \<^verbatim>\<open>copy_license_files(dep) or pull_from_url(dep['Name'].lower(), dep_config['pip_dependencies'])\<close>.
\<close>

definition has_license :: "license_env \<Rightarrow> (string \<rightharpoonup> configs) \<Rightarrow> dep \<Rightarrow> bool m" where
  "has_license env cfg d =
     bindE (copy_license_files d)
       (\<lambda>copied. if copied then return True
          else case cfg ''pip_dependencies'' of
                 None \<Rightarrow> raise (KeyError ''pip_dependencies'')
               | Some cfgs \<Rightarrow> pull_from_url env (lower (Name d)) cfgs)"

text \<open>The loop of lines 134 to 137, with the list \<open>no_licenses\<close> it appends to.\<close>

fun pull_loop :: "license_env \<Rightarrow> (string \<rightharpoonup> configs) \<Rightarrow> dep list \<Rightarrow> string list \<Rightarrow> string list m" where
  "pull_loop env cfg [] no_licenses w = (Inr no_licenses, w)"
| "pull_loop env cfg (d # ds) no_licenses w =
     (case has_license env cfg d w of
        (Inl e, w') \<Rightarrow> (Inl e, w')
      | (Inr ok, w') \<Rightarrow>
          pull_loop env cfg ds (if \<not> ok then no_licenses @ [lower (Name d)] else no_licenses) w')"

definition main :: "license_env \<Rightarrow> unit m" where
  "main env =
     bindE (makedirs license_dir)
     (\<lambda>_. bindE (lift (dep_config env))
     (\<lambda>cfg. bindE (lift (pip_licenses env))
     (\<lambda>dependencies. bindE (pull_loop env cfg dependencies [])
     (\<lambda>no_licenses. if no_licenses \<noteq> [] then raise (MissingLicenses no_licenses)
                      else return ()))))"

subsection \<open>Example inputs of the license puller\<close>

text \<open>
  A world whose only directory is the current one, and an environment in which every
  download fails. The dependency \<open>Foo\<close> has no license file known to pip-licenses and an
  override entry with a URL.
\<close>

definition w0 :: world where
  "w0 = initial_world [[] \<mapsto> []]"

definition env_offline :: license_env where
  "env_offline = \<lparr>listdir_key = (\<lambda>_. 0), wget_content = (\<lambda>_. None),
     dep_config = Inr [''pip_dependencies'' \<mapsto> [''foo'' \<mapsto> [''license'' \<mapsto> ''http://x/L'']]],
     pip_licenses = Inr [\<lparr>Name = ''Foo'', LicenseFile = ''UNKNOWN''\<rparr>]\<rparr>"

subsection \<open>Which dependencies obtained a license\<close>

text \<open>
  \<open>obtained_license\<close> lists, for the dependencies processed before the first exception,
  whether the dependency obtained a license (the pip-licenses copy or the override
  succeeded); \<open>offending\<close> are the lowercased names of those that did not.
\<close>

fun obtained_license :: "license_env \<Rightarrow> (string \<rightharpoonup> configs) \<Rightarrow> dep list \<Rightarrow> world \<Rightarrow> bool list" where
  "obtained_license env cfg [] w = []"
| "obtained_license env cfg (d # ds) w =
     (case has_license env cfg d w of
        (Inl e, w') \<Rightarrow> []
      | (Inr ok, w') \<Rightarrow> ok # obtained_license env cfg ds w')"

definition offending :: "license_env \<Rightarrow> (string \<rightharpoonup> configs) \<Rightarrow> dep list \<Rightarrow> world \<Rightarrow> string list" where
  "offending env cfg ds w =
     map (\<lambda>(d, ok). lower (Name d)) (filter (\<lambda>(d, ok). \<not> ok) (zip ds (obtained_license env cfg ds w)))"

text \<open>
  Two dependencies: \<open>Good\<close> with a license file found by pip-licenses, \<open>Bad\<close> with none and
  no override entry.
\<close>

definition w_lic :: world where
  "w_lic = initial_world [[] \<mapsto> [], ''/lic'' \<mapsto> [(''GOOD'', ''text'')]]"

definition env_two :: license_env where
  "env_two = \<lparr>listdir_key = (\<lambda>_. 0), wget_content = (\<lambda>_. None),
     dep_config = Inr [''pip_dependencies'' \<mapsto> Map.empty],
     pip_licenses = Inr [\<lparr>Name = ''Good'', LicenseFile = ''/lic/GOOD''\<rparr>,
                         \<lparr>Name = ''Bad'', LicenseFile = ''UNKNOWN''\<rparr>]\<rparr>"

section \<open>The stager (stager.py)\<close>

subsection \<open>Options and environment\<close>

text \<open>
  The fields of \<^verbatim>\<open>PipelineOptions\<close> that \<^verbatim>\<open>stage_job_resources\<close> reads. \<open>jar_packages\<close> is
  the value of \<^verbatim>\<open>lookup_experiment('jar_packages')\<close>; \<open>sdk_location = None\<close> means that
  the options object has no attribute \<^verbatim>\<open>sdk_location\<close>.
\<close>

record options =
  requirements_file :: "string option"
  requirements_cache :: "string option"
  setup_file :: "string option"
  extra_packages :: "string list option"
  jar_packages :: "string option"
  save_main_session :: bool
  sdk_location :: "string option"
  dataflow_worker_jar :: "string option"

text \<open>
  The collaborators that are not under \<^verbatim>\<open>src/\<close> are parameters: the names drawn by
  \<^verbatim>\<open>tempfile\<close>, \<^verbatim>\<open>FileSystems.join\<close> and \<^verbatim>\<open>FileSystems.split\<close>, the staging backend behind
  \<^verbatim>\<open>stage_artifact\<close> and \<^verbatim>\<open>commit_manifest\<close> (whether a call raises may depend on the
  local files), the HTTP client (status and content, or an exception), subprocesses
  (\<^verbatim>\<open>processes.check_output\<close>: command line and working directory; it raises or changes
  the file system), the pickler, the interpreter settings, the installed SDK version,
  the constants of \<^verbatim>\<open>names\<close>, and the wait of the retry decorator.
\<close>

record stager_env = os_env +
  tmp_name :: "nat \<Rightarrow> string"
  gettempdir :: string
  fs_join :: "string \<Rightarrow> string \<Rightarrow> string"
  fs_split :: "string \<Rightarrow> exn + string \<times> string"
  stage_artifact_impl :: "string \<Rightarrow> string \<Rightarrow> filesys \<Rightarrow> exn option"
  commit_manifest_impl :: "(string \<times> string) list \<Rightarrow> exn + string"
  http_request :: "string \<Rightarrow> exn + nat \<times> string"
  check_output :: "string list \<Rightarrow> string \<Rightarrow> filesys \<Rightarrow> exn + filesys"
  dump_session :: "string \<Rightarrow> filesys \<Rightarrow> exn + filesys"
  beam_python :: "string option"
  sys_executable :: string
  version_info :: "nat \<times> nat"
  sdk_version :: "string option"
  BEAM_PACKAGE_NAME :: string
  PICKLED_MAIN_SESSION_FILE :: string
  DATAFLOW_SDK_TARBALL_FILE :: string
  initial_delay :: nat
  backoff_factor :: nat

definition WORKFLOW_TARBALL_FILE :: string where
  "WORKFLOW_TARBALL_FILE = ''workflow.tar.gz''"

definition REQUIREMENTS_FILE :: string where
  "REQUIREMENTS_FILE = ''requirements.txt''"

definition EXTRA_PACKAGES_FILE :: string where
  "EXTRA_PACKAGES_FILE = ''extra_packages.txt''"

subsection \<open>Library calls\<close>

text \<open>Decimal rendering, for \<^verbatim>\<open>'%d%d' % (sys.version_info[0], sys.version_info[1])\<close>.\<close>

fun str_digits :: "nat \<Rightarrow> nat \<Rightarrow> string" where
  "str_digits 0 n = []"
| "str_digits (Suc k) n =
     (if n < 10 then [''0123456789'' ! n]
      else str_digits k (n div 10) @ [''0123456789'' ! (n mod 10)])"

definition str_nat :: "nat \<Rightarrow> string" where
  "str_nat n = str_digits (Suc n) n"

text \<open>\<^verbatim>\<open>s.split(',')\<close>.\<close>

fun split_comma :: "string \<Rightarrow> string list" where
  "split_comma [] = [[]]"
| "split_comma (c # cs) =
     (if c = CHR '','' then [] # split_comma cs
      else case split_comma cs of [] \<Rightarrow> [[c]] | x # xs \<Rightarrow> (c # x) # xs)"

text \<open>
  \<^verbatim>\<open>tempfile.mkdtemp(dir=d)\<close> draws candidate names until \<^verbatim>\<open>os.mkdir\<close> succeeds, at most
  \<^verbatim>\<open>TMP_MAX\<close> times; only \<^verbatim>\<open>FileExistsError\<close> leads to another draw.
\<close>

definition TMP_MAX :: nat where
  "TMP_MAX = 10000"

fun mkdtemp_loop :: "'e stager_env_scheme \<Rightarrow> nat \<Rightarrow> string \<Rightarrow> string m" where
  "mkdtemp_loop env 0 dir w = (Inl (FileExistsError dir), w)"
| "mkdtemp_loop env (Suc k) dir w =
     (let file = path_join dir (''tmp'' @ tmp_name env (tmp_seq w));
          w1 = w\<lparr>tmp_seq := Suc (tmp_seq w)\<rparr>
      in case mkdir file w1 of
           (Inr u, w2) \<Rightarrow> (Inr file, w2)
         | (Inl e, w2) \<Rightarrow>
             (case e of FileExistsError p \<Rightarrow> mkdtemp_loop env k dir w2
                      | _ \<Rightarrow> (Inl e, w2)))"

definition mkdtemp :: "'e stager_env_scheme \<Rightarrow> string option \<Rightarrow> string m" where
  "mkdtemp env dir =
     mkdtemp_loop env TMP_MAX (case dir of None \<Rightarrow> gettempdir env | Some d \<Rightarrow> d)"

text \<open>
  \<^verbatim>\<open>glob.glob(os.path.join(d, pattern))\<close> for the two patterns the stager uses. A name
  that starts with a dot is matched by neither; the directory part is taken literally.
\<close>

definition glob_star :: "'e os_env_scheme \<Rightarrow> filesys \<Rightarrow> string \<Rightarrow> string list" where
  "glob_star env f d =
     (case f d of None \<Rightarrow> []
      | Some es \<Rightarrow> map (path_join d)
          (sort_key (listdir_key env) (filter (\<lambda>n. \<not> startswith n ''.'') (map fst es))))"

definition glob_tar_gz :: "'e os_env_scheme \<Rightarrow> filesys \<Rightarrow> string \<Rightarrow> string list" where
  "glob_tar_gz env f d =
     (case f d of None \<Rightarrow> []
      | Some es \<Rightarrow> map (path_join d)
          (sort_key (listdir_key env)
             (filter (\<lambda>n. \<not> startswith n ''.'' \<and> endswith n ''.tar.gz'') (map fst es))))"

text \<open>\<^verbatim>\<open>processes.check_output(args)\<close> in the working directory \<open>cwd\<close>.\<close>

definition run_process :: "'e stager_env_scheme \<Rightarrow> string \<Rightarrow> string list \<Rightarrow> unit m" where
  "run_process env cwd args w =
     (let w1 = w\<lparr>proc_log := proc_log w @ [args]\<rparr>
      in case check_output env args cwd (fs w1) of
           Inl e \<Rightarrow> (Inl e, w1)
         | Inr f \<Rightarrow> (Inr (), w1\<lparr>fs := f\<rparr>))"

text \<open>\<^verbatim>\<open>os.chdir(d)\<close>; the working directory itself is not part of the world.\<close>

definition chdir :: "string \<Rightarrow> unit m" where
  "chdir d w = (if d = [] \<or> \<not> isdir (fs w) d then (Inl (FileNotFoundError d), w) else (Inr (), w))"

subsection \<open>The abstract methods and the small helpers\<close>

text \<open>
  \<^verbatim>\<open>stage_artifact\<close> and \<^verbatim>\<open>commit_manifest\<close> are abstract in \<^verbatim>\<open>Stager\<close>; an implementation
  either raises or records the artifact (commits the manifest).
\<close>

definition stage_artifact :: "'e stager_env_scheme \<Rightarrow> string \<Rightarrow> string \<Rightarrow> unit m" where
  "stage_artifact env local_path_to_artifact artifact_name w =
     (case stage_artifact_impl env local_path_to_artifact artifact_name (fs w) of
        Some e \<Rightarrow> (Inl e, w)
      | None \<Rightarrow> (Inr (), w\<lparr>staged := staged w @ [(local_path_to_artifact, artifact_name)]\<rparr>))"

definition commit_manifest :: "'e stager_env_scheme \<Rightarrow> string m" where
  "commit_manifest env w =
     (case commit_manifest_impl env (staged w) of
        Inl e \<Rightarrow> (Inl e, w)
      | Inr token \<Rightarrow> (Inr token, w\<lparr>commits := Suc (commits w)\<rparr>))"

definition retry_on_non_zero_exit :: "exn \<Rightarrow> bool" where
  "retry_on_non_zero_exit exception =
     (case exception of CalledProcessError returncode \<Rightarrow> returncode \<noteq> 0 | _ \<Rightarrow> False)"

definition is_remote_path :: "string \<Rightarrow> bool" where
  "is_remote_path path = sublist ''://'' path"

definition get_python_executable :: "'e stager_env_scheme \<Rightarrow> string m" where
  "get_python_executable env =
     (let python_bin = (case beam_python env of
                          None \<Rightarrow> sys_executable env
                        | Some b \<Rightarrow> if b \<noteq> [] then b else sys_executable env)
      in if python_bin = [] then raise (ValueError ''Could not find Python executable.'')
         else return python_bin)"

text \<open>\<^verbatim>\<open>_download_file\<close>, lines 304 to 328.\<close>

definition download_file :: "'e stager_env_scheme \<Rightarrow> string \<Rightarrow> string \<Rightarrow> unit m" where
  "download_file env from_url to_path =
     (if startswith from_url ''http://'' \<or> startswith from_url ''https://'' then
        (\<lambda>w. let w1 = w\<lparr>http_log := http_log w @ [from_url]\<rparr>
              in case http_request env from_url of
                   Inl e \<Rightarrow> (Inl e, w1)
                 | Inr (status, content) \<Rightarrow>
                     if status \<ge> 400 then (Inl (ArtifactNotFound from_url status), w1)
                     else write_file to_path content w1)
      else
        bindE (\<lambda>w. if \<not> isdir (fs w) (dirname to_path) then mkdir (dirname to_path) w
                    else (Inr (), w))
          (\<lambda>u. copyfile from_url to_path))"

text \<open>The staging loop of lines 378 to 382 and of lines 446 to 450.\<close>

fun stage_packages :: "'e stager_env_scheme \<Rightarrow> string \<Rightarrow> string list \<Rightarrow> string list \<Rightarrow> string list m" where
  "stage_packages env staging_location [] resources w = (Inr resources, w)"
| "stage_packages env staging_location (package # rest) resources w =
     (let basename = basename package;
          staged_path = fs_join env staging_location basename
      in case stage_artifact env package staged_path w of
           (Inl e, w') \<Rightarrow> (Inl e, w')
         | (Inr u, w') \<Rightarrow> stage_packages env staging_location rest (resources @ [basename]) w')"

subsection \<open>Jar packages\<close>

text \<open>The loop of lines 352 to 371, with the list \<open>local_packages\<close> it appends to.\<close>

fun jar_packages_loop :: "'e stager_env_scheme \<Rightarrow> string \<Rightarrow> string list \<Rightarrow> string list \<Rightarrow> string list m" where
  "jar_packages_loop env staging_temp_dir [] local_packages w = (Inr local_packages, w)"
| "jar_packages_loop env staging_temp_dir (package # rest) local_packages w =
     (if \<not> endswith (basename package) ''.jar'' then (Inl (JarPackageBadExtension package), w)
      else if \<not> isfile (fs w) package then
        (if is_remote_path package then
           (case fs_split env package of
              Inl e \<Rightarrow> (Inl e, w)
            | Inr (head, last_component) \<Rightarrow>
                let local_file_path = fs_join env staging_temp_dir last_component
                in case download_file env package local_file_path w of
                     (Inl e, w') \<Rightarrow> (Inl e, w')
                   | (Inr u, w') \<Rightarrow> jar_packages_loop env staging_temp_dir rest local_packages w')
         else (Inl (JarPackageNotFound package), w))
      else jar_packages_loop env staging_temp_dir rest (local_packages @ [package]) w)"

definition stage_jar_packages :: "'e stager_env_scheme \<Rightarrow> string list \<Rightarrow> string \<Rightarrow> string \<Rightarrow> string list m" where
  "stage_jar_packages env jar_pkgs staging_location temp_dir =
     bindE (mkdtemp env (Some temp_dir))
     (\<lambda>staging_temp_dir. bindE (jar_packages_loop env staging_temp_dir jar_pkgs [])
     (\<lambda>local_packages. bindE (listdir env staging_temp_dir)
     (\<lambda>fs_names. stage_packages env staging_location
        (local_packages @ map (fs_join env staging_temp_dir) fs_names) [])))"

subsection \<open>Extra packages\<close>

text \<open>The loop of lines 410 to 439; the warning for wheels is a log call and is left out.\<close>

fun extra_packages_loop :: "'e stager_env_scheme \<Rightarrow> string \<Rightarrow> string list \<Rightarrow> string list \<Rightarrow> string list m" where
  "extra_packages_loop env staging_temp_dir [] local_packages w = (Inr local_packages, w)"
| "extra_packages_loop env staging_temp_dir (package # rest) local_packages w =
     (if \<not> (endswith (basename package) ''.tar'' \<or> endswith (basename package) ''.tar.gz''
             \<or> endswith (basename package) ''.whl'' \<or> endswith (basename package) ''.zip'')
      then (Inl (ExtraPackageBadExtension package), w)
      else if \<not> isfile (fs w) package then
        (if is_remote_path package then
           (case fs_split env package of
              Inl e \<Rightarrow> (Inl e, w)
            | Inr (head, last_component) \<Rightarrow>
                let local_file_path = fs_join env staging_temp_dir last_component
                in case download_file env package local_file_path w of
                     (Inl e, w') \<Rightarrow> (Inl e, w')
                   | (Inr u, w') \<Rightarrow> extra_packages_loop env staging_temp_dir rest local_packages w')
         else (Inl (ExtraPackageNotFound package), w))
      else extra_packages_loop env staging_temp_dir rest (local_packages @ [package]) w)"

text \<open>The text written to the manifest file, lines 458 to 460.\<close>

definition manifest_text :: "string list \<Rightarrow> string" where
  "manifest_text local_packages = concat (map (\<lambda>package. basename package @ [CHR 0x0A]) local_packages)"

definition stage_extra_packages :: "'e stager_env_scheme \<Rightarrow> string list \<Rightarrow> string \<Rightarrow> string \<Rightarrow> string list m" where
  "stage_extra_packages env extra_pkgs staging_location temp_dir =
     bindE (mkdtemp env (Some temp_dir))
     (\<lambda>staging_temp_dir. bindE (extra_packages_loop env staging_temp_dir extra_pkgs [])
     (\<lambda>local_packages0. bindE (listdir env staging_temp_dir)
     (\<lambda>fs_names.
        let local_packages = local_packages0 @ map (fs_join env staging_temp_dir) fs_names
        in bindE (stage_packages env staging_location local_packages [])
     (\<lambda>resources. bindE (write_file (path_join temp_dir EXTRA_PACKAGES_FILE) (manifest_text local_packages))
     (\<lambda>u. bindE (stage_artifact env (path_join temp_dir EXTRA_PACKAGES_FILE)
                    (fs_join env staging_location EXTRA_PACKAGES_FILE))
     (\<lambda>u. return (resources @ [EXTRA_PACKAGES_FILE])))))))"

subsection \<open>The requirements cache\<close>

text \<open>
  Modelled from the spec: \<^verbatim>\<open>retry.with_exponential_backoff\<close> (module
  \<^verbatim>\<open>apache_beam.utils.retry\<close>) is missing from the sources. The spec describes the decorated
  download as "4 attempts, exponential backoff, only retried on non-zero subprocess exit":
  the call is attempted at most \<open>attempts\<close> times in total; a failure that the filter
  accepts is followed, while attempts remain, by a sleep and another attempt; the sleep
  grows by a constant factor each time; any other failure, and the failure of the last
  attempt, is raised as it is.
\<close>

fun with_exponential_backoff :: "nat \<Rightarrow> (exn \<Rightarrow> bool) \<Rightarrow> nat \<Rightarrow> nat \<Rightarrow> 'a m \<Rightarrow> 'a m" where
  "with_exponential_backoff 0 retry_filter factor delay f w = f w"
| "with_exponential_backoff (Suc 0) retry_filter factor delay f w = f w"
| "with_exponential_backoff (Suc (Suc n)) retry_filter factor delay f w =
     (case f w of
        (Inr x, w') \<Rightarrow> (Inr x, w')
      | (Inl e, w') \<Rightarrow>
          if retry_filter e then
            with_exponential_backoff (Suc n) retry_filter factor (factor * delay) f
              (w'\<lparr>sleeps := sleeps w' @ [delay]\<rparr>)
          else (Inl e, w'))"

text \<open>The body of \<^verbatim>\<open>_populate_requirements_cache\<close>, lines 488 to 504.\<close>

definition populate_requirements_cache_body :: "'e stager_env_scheme \<Rightarrow> string \<Rightarrow> string \<Rightarrow> unit m" where
  "populate_requirements_cache_body env req_file cache_dir =
     bindE (get_python_executable env)
     (\<lambda>python. run_process env []
        [python, ''-m'', ''pip'', ''download'', ''--dest'', cache_dir, ''-r'', req_file,
         ''--exists-action'', ''i'', ''--no-binary'', '':all:''])"

definition populate_requirements_cache :: "'e stager_env_scheme \<Rightarrow> string \<Rightarrow> string \<Rightarrow> unit m" where
  "populate_requirements_cache env req_file cache_dir =
     with_exponential_backoff 4 retry_on_non_zero_exit (backoff_factor env) (initial_delay env)
       (populate_requirements_cache_body env req_file cache_dir)"

subsection \<open>The setup package and the SDK\<close>

text \<open>
  \<^verbatim>\<open>_build_setup_package\<close>, lines 512 to 531. The \<^verbatim>\<open>finally\<close> clause restores the working
  directory, which is not part of the world.
\<close>

definition build_setup_package :: "'e stager_env_scheme \<Rightarrow> string \<Rightarrow> string \<Rightarrow> string list option \<Rightarrow> string m" where
  "build_setup_package env setup_file_path temp_dir build_setup_args =
     bindE (chdir (dirname setup_file_path))
     (\<lambda>u. bindE (case build_setup_args of
                    Some args \<Rightarrow> return args
                  | None \<Rightarrow> bindE (get_python_executable env)
                      (\<lambda>python. return [python, basename setup_file_path, ''sdist'', ''--dist-dir'', temp_dir]))
     (\<lambda>args. bindE (run_process env (dirname setup_file_path) args)
     (\<lambda>u w. case glob_tar_gz env (fs w) temp_dir of
               [] \<Rightarrow> (Inl (SdistOutputNotFound (path_join temp_dir ''*.tar.gz'')), w)
             | output_file # others \<Rightarrow> (Inr output_file, w))))"

text \<open>\<^verbatim>\<open>_desired_sdk_filename_in_staging_location\<close>, lines 541 to 548.\<close>

definition desired_sdk_filename_in_staging_location :: "'e stager_env_scheme \<Rightarrow> string \<Rightarrow> string m" where
  "desired_sdk_filename_in_staging_location env sdk_loc =
     (if endswith sdk_loc ''.whl'' then
        bindE (lift (fs_split env sdk_loc))
          (\<lambda>(head, wheel_filename).
             if startswith wheel_filename ''apache_beam'' then return wheel_filename
             else raise (UnrecognizedSdkWheel sdk_loc))
      else return (DATAFLOW_SDK_TARBALL_FILE env))"

text \<open>
  \<^verbatim>\<open>_download_pypi_sdk_package\<close>, lines 627 to 693. A \<^verbatim>\<open>CalledProcessError\<close> of the
  subprocess is raised again as a \<^verbatim>\<open>RuntimeError\<close>; the function returns the first expected
  file that exists.
\<close>

definition called_process_error_as_runtime_error :: "exn \<Rightarrow> exn" where
  "called_process_error_as_runtime_error e =
     (case e of CalledProcessError rc \<Rightarrow> SdkDownloadFailed e | _ \<Rightarrow> e)"

definition download_pypi_sdk_package ::
  "'e stager_env_scheme \<Rightarrow> string \<Rightarrow> bool \<Rightarrow> string \<Rightarrow> string \<Rightarrow> string \<Rightarrow> string \<Rightarrow> string m" where
  "download_pypi_sdk_package env temp_dir fetch_binary language_version_tag
       language_implementation_tag abi_tag platform_tag =
     (let package_name = BEAM_PACKAGE_NAME env in
      case sdk_version env of
        None \<Rightarrow> raise (NoSdkDistribution package_name)
      | Some version \<Rightarrow>
          bindE (get_python_executable env)
          (\<lambda>python.
             let cmd_args = [python, ''-m'', ''pip'', ''download'', ''--dest'', temp_dir,
                             package_name @ ''=='' @ version, ''--no-deps''];
                 cmd_args2 = (if fetch_binary then
                     cmd_args @ [''--only-binary'', '':all:'', ''--python-version'', language_version_tag,
                       ''--implementation'', language_implementation_tag, ''--abi'', abi_tag,
                       ''--platform'', platform_tag]
                   else cmd_args @ [''--no-binary'', '':all:'']);
                 expected_files = (if fetch_binary then
                     [path_join temp_dir
                        (map (\<lambda>c. if c = CHR ''-'' then CHR ''_'' else c) package_name @ ''-'' @ version
                         @ ''-'' @ language_implementation_tag @ language_version_tag @ ''-'' @ abi_tag
                         @ ''-'' @ platform_tag @ ''.whl'')]
                   else
                     [path_join temp_dir (package_name @ ''-'' @ version @ ''.zip''),
                      path_join temp_dir (package_name @ ''-'' @ version @ ''.tar.gz'')])
             in bindE (map_error called_process_error_as_runtime_error
                         (run_process env [] cmd_args2))
                (\<lambda>u w. case filter (exists (fs w)) expected_files of
                          [] \<Rightarrow> (Inl (SdkDistributionMissing expected_files), w)
                        | sdk_file # others \<Rightarrow> (Inr sdk_file, w))))"

text \<open>
  The best-effort staging of the binary distribution, lines 578 to 600: a
  \<^verbatim>\<open>RuntimeError\<close> is logged and dropped, any other exception propagates.
\<close>

definition stage_binary_sdk :: "'e stager_env_scheme \<Rightarrow> string \<Rightarrow> string \<Rightarrow> string list \<Rightarrow> string list m" where
  "stage_binary_sdk env staging_location temp_dir staged_sdk_files w =
     (case bindE (download_pypi_sdk_package env temp_dir True
                    (str_nat (fst (version_info env)) @ str_nat (snd (version_info env))) ''cp''
                    (''cp'' @ str_nat (fst (version_info env)) @ str_nat (snd (version_info env))
                       @ (if fst (version_info env) < 3 then ''mu'' else ''m''))
                    ''manylinux1_x86_64'')
            (\<lambda>sdk_local_file. bindE (desired_sdk_filename_in_staging_location env sdk_local_file)
            (\<lambda>sdk_binary_staged_name.
               bindE (stage_artifact env sdk_local_file (fs_join env staging_location sdk_binary_staged_name))
            (\<lambda>u. return (staged_sdk_files @ [sdk_binary_staged_name])))) w of
        (Inr files, w') \<Rightarrow> (Inr files, w')
      | (Inl e, w') \<Rightarrow> if is_RuntimeError e then (Inr staged_sdk_files, w') else (Inl e, w'))"

text \<open>\<^verbatim>\<open>_stage_beam_sdk\<close>, lines 569 to 616.\<close>

definition stage_beam_sdk :: "'e stager_env_scheme \<Rightarrow> string \<Rightarrow> string \<Rightarrow> string \<Rightarrow> string list m" where
  "stage_beam_sdk env sdk_remote_location staging_location temp_dir =
     (if sdk_remote_location = ''pypi'' then
        bindE (download_pypi_sdk_package env temp_dir False ''27'' ''cp'' ''cp27mu'' ''manylinux1_x86_64'')
        (\<lambda>sdk_local_file. bindE (desired_sdk_filename_in_staging_location env sdk_local_file)
        (\<lambda>sdk_sources_staged_name.
           bindE (stage_artifact env sdk_local_file (fs_join env staging_location sdk_sources_staged_name))
        (\<lambda>u. stage_binary_sdk env staging_location temp_dir [sdk_sources_staged_name])))
      else if is_remote_path sdk_remote_location then
        (let local_download_file = path_join temp_dir ''beam-sdk.tar.gz''
         in bindE (download_file env sdk_remote_location local_download_file)
            (\<lambda>u. bindE (desired_sdk_filename_in_staging_location env sdk_remote_location)
            (\<lambda>staged_name.
               bindE (stage_artifact env local_download_file (fs_join env staging_location staged_name))
            (\<lambda>u. return [staged_name]))))
      else raise (UnsupportedSdkLocation sdk_remote_location))"

subsection \<open>stage_job_resources, block by block\<close>

text \<open>
  Line 150: \<^verbatim>\<open>temp_dir = temp_dir or tempfile.mkdtemp()\<close>. \<open>None\<close> and the empty string are
  false.
\<close>

definition resolve_temp_dir :: "'e stager_env_scheme \<Rightarrow> string option \<Rightarrow> string m" where
  "resolve_temp_dir env temp_dir =
     (case temp_dir of
        None \<Rightarrow> mkdtemp env None
      | Some d \<Rightarrow> if d \<noteq> [] then return d else mkdtemp env None)"

definition requirements_cache_path :: "'e stager_env_scheme \<Rightarrow> options \<Rightarrow> string" where
  "requirements_cache_path env opts =
     (case requirements_cache opts of
        None \<Rightarrow> path_join (gettempdir env) ''dataflow-requirements-cache''
      | Some c \<Rightarrow> c)"

text \<open>
  Lines 160 to 179: the requirements file is checked and staged, the cache directory is
  created if needed, and the download step runs. \<open>populate\<close> is the test hook
  \<^verbatim>\<open>populate_requirements_cache\<close>: a callable that raises or changes the file system.
\<close>

definition requirements_download ::
  "'e stager_env_scheme \<Rightarrow> options \<Rightarrow> (string \<Rightarrow> string \<Rightarrow> filesys \<Rightarrow> exn + filesys) option
     \<Rightarrow> string \<Rightarrow> string \<Rightarrow> unit m" where
  "requirements_download env opts populate staging_location req_file =
     bindE (\<lambda>w. if \<not> isfile (fs w) req_file then (Inl (RequirementsFileNotFound req_file), w)
                 else (Inr (), w))
     (\<lambda>u. bindE (stage_artifact env req_file (fs_join env staging_location REQUIREMENTS_FILE))
     (\<lambda>u. bindE (\<lambda>w. if \<not> exists (fs w) (requirements_cache_path env opts)
                       then makedirs (requirements_cache_path env opts) w else (Inr (), w))
     (\<lambda>u. case populate of
             Some hook \<Rightarrow>
               (\<lambda>w. case hook req_file (requirements_cache_path env opts) (fs w) of
                       Inl e \<Rightarrow> (Inl e, w)
                     | Inr f \<Rightarrow> (Inr (), w\<lparr>fs := f\<rparr>))
           | None \<Rightarrow> populate_requirements_cache env req_file (requirements_cache_path env opts))))"

text \<open>Lines 159 to 183.\<close>

definition requirements_step ::
  "'e stager_env_scheme \<Rightarrow> options \<Rightarrow> (string \<Rightarrow> string \<Rightarrow> filesys \<Rightarrow> exn + filesys) option
     \<Rightarrow> string \<Rightarrow> string list \<Rightarrow> string list m" where
  "requirements_step env opts populate staging_location resources =
     (case requirements_file opts of
        None \<Rightarrow> return resources
      | Some req_file \<Rightarrow>
          bindE (requirements_download env opts populate staging_location req_file)
          (\<lambda>u w. stage_packages env staging_location
                    (glob_star env (fs w) (requirements_cache_path env opts))
                    (resources @ [REQUIREMENTS_FILE]) w))"

text \<open>Lines 189 to 202.\<close>

definition setup_step ::
  "'e stager_env_scheme \<Rightarrow> options \<Rightarrow> string list option \<Rightarrow> string \<Rightarrow> string \<Rightarrow> string list
     \<Rightarrow> string list m" where
  "setup_step env opts build_setup_args staging_location temp_dir resources =
     (case setup_file opts of
        None \<Rightarrow> return resources
      | Some sf \<Rightarrow>
          (\<lambda>w. if \<not> isfile (fs w) sf then (Inl (SetupFileNotFound sf), w)
                else if basename sf \<noteq> ''setup.py'' then (Inl (SetupFileBadName sf), w)
                else bindE (build_setup_package env sf temp_dir build_setup_args)
                     (\<lambda>tarball_file.
                        bindE (stage_artifact env tarball_file
                                 (fs_join env staging_location WORKFLOW_TARBALL_FILE))
                     (\<lambda>u. return (resources @ [WORKFLOW_TARBALL_FILE]))) w))"

text \<open>Lines 205 to 209.\<close>

definition extra_packages_step ::
  "'e stager_env_scheme \<Rightarrow> options \<Rightarrow> string \<Rightarrow> string \<Rightarrow> string list \<Rightarrow> string list m" where
  "extra_packages_step env opts staging_location temp_dir resources =
     (case extra_packages opts of
        None \<Rightarrow> return resources
      | Some pkgs \<Rightarrow>
          bindE (stage_extra_packages env pkgs staging_location temp_dir)
            (\<lambda>names. return (resources @ names)))"

text \<open>Lines 212 to 217.\<close>

definition jar_packages_step ::
  "'e stager_env_scheme \<Rightarrow> options \<Rightarrow> string \<Rightarrow> string \<Rightarrow> string list \<Rightarrow> string list m" where
  "jar_packages_step env opts staging_location temp_dir resources =
     (case jar_packages opts of
        None \<Rightarrow> return resources
      | Some jars \<Rightarrow>
          bindE (stage_jar_packages env (split_comma jars) staging_location temp_dir)
            (\<lambda>names. return (resources @ names)))"

text \<open>Lines 223 to 230.\<close>

definition main_session_step ::
  "'e stager_env_scheme \<Rightarrow> options \<Rightarrow> string \<Rightarrow> string \<Rightarrow> string list \<Rightarrow> string list m" where
  "main_session_step env opts staging_location temp_dir resources =
     (if save_main_session opts then
        (let pickled_session_file = path_join temp_dir (PICKLED_MAIN_SESSION_FILE env)
         in bindE (\<lambda>w. case dump_session env pickled_session_file (fs w) of
                         Inl e \<Rightarrow> (Inl e, w)
                       | Inr f \<Rightarrow> (Inr (), w\<lparr>fs := f\<rparr>))
            (\<lambda>u. bindE (stage_artifact env pickled_session_file
                           (fs_join env staging_location (PICKLED_MAIN_SESSION_FILE env)))
            (\<lambda>u. return (resources @ [PICKLED_MAIN_SESSION_FILE env]))))
      else return resources)"

text \<open>Lines 232 to 285.\<close>

definition sdk_step ::
  "'e stager_env_scheme \<Rightarrow> options \<Rightarrow> string \<Rightarrow> string \<Rightarrow> string list \<Rightarrow> string list m" where
  "sdk_step env opts staging_location temp_dir resources =
     (case sdk_location opts of
        None \<Rightarrow> return resources
      | Some loc \<Rightarrow>
          if loc = ''default'' \<or> is_remote_path loc then
            (let sdk_remote_location = (if loc = ''default'' then ''pypi'' else loc)
             in bindE (stage_beam_sdk env sdk_remote_location staging_location temp_dir)
                  (\<lambda>names. return (resources @ names)))
          else if loc = ''container'' then return resources
          else
            (\<lambda>w. let sdk_path = (if isdir (fs w) loc then path_join loc (DATAFLOW_SDK_TARBALL_FILE env)
                                  else loc)
                  in if isfile (fs w) sdk_path then
                       bindE (desired_sdk_filename_in_staging_location env loc)
                       (\<lambda>name. let staged_path = fs_join env staging_location name
                                in bindE (stage_artifact env sdk_path staged_path)
                       (\<lambda>u. bindE (lift (fs_split env staged_path))
                       (\<lambda>(head, sdk_staged_filename). return (resources @ [sdk_staged_filename])))) w
                     else if loc = ''default'' then (Inl (DefaultSdkTarNotFound sdk_path), w)
                     else if loc = [] then (Inr resources, w)
                     else (Inl (SdkFileNotFound sdk_path), w)))"

text \<open>Lines 287 to 293.\<close>

definition worker_jar_step ::
  "'e stager_env_scheme \<Rightarrow> options \<Rightarrow> string \<Rightarrow> string list \<Rightarrow> string list m" where
  "worker_jar_step env opts staging_location resources =
     (case dataflow_worker_jar opts of
        None \<Rightarrow> return resources
      | Some jar \<Rightarrow>
          bindE (stage_artifact env jar (fs_join env staging_location ''dataflow-worker.jar''))
            (\<lambda>u. return (resources @ [''dataflow-worker.jar''])))"

text \<open>Lines 155 to 293: everything between the choice of the directory and its removal.\<close>

definition staging_steps ::
  "'e stager_env_scheme \<Rightarrow> options \<Rightarrow> string list option
     \<Rightarrow> (string \<Rightarrow> string \<Rightarrow> filesys \<Rightarrow> exn + filesys) option \<Rightarrow> string option \<Rightarrow> string \<Rightarrow> string list m" where
  "staging_steps env opts build_setup_args populate staging_location temp_dir =
     (case staging_location of
        None \<Rightarrow> raise StagingLocationMissing
      | Some loc \<Rightarrow>
          bindE (requirements_step env opts populate loc [])
          (\<lambda>resources. bindE (setup_step env opts build_setup_args loc temp_dir resources)
          (\<lambda>resources. bindE (extra_packages_step env opts loc temp_dir resources)
          (\<lambda>resources. bindE (jar_packages_step env opts loc temp_dir resources)
          (\<lambda>resources. bindE (main_session_step env opts loc temp_dir resources)
          (\<lambda>resources. bindE (sdk_step env opts loc temp_dir resources)
          (\<lambda>resources. worker_jar_step env opts loc resources)))))))"

text \<open>\<^verbatim>\<open>stage_job_resources\<close>, lines 150 to 298.\<close>

definition stage_job_resources ::
  "'e stager_env_scheme \<Rightarrow> options \<Rightarrow> string list option \<Rightarrow> string option
     \<Rightarrow> (string \<Rightarrow> string \<Rightarrow> filesys \<Rightarrow> exn + filesys) option \<Rightarrow> string option
     \<Rightarrow> (string \<times> string list) m" where
  "stage_job_resources env opts build_setup_args temp_dir populate staging_location =
     bindE (resolve_temp_dir env temp_dir)
     (\<lambda>temp_dir. bindE (staging_steps env opts build_setup_args populate staging_location temp_dir)
     (\<lambda>resources. bindE (rmtree temp_dir)
     (\<lambda>u. bindE (commit_manifest env)
     (\<lambda>retrieval_token. return (retrieval_token, resources)))))"

subsection \<open>Example inputs of the stager\<close>

text \<open>
  An environment in which \<^verbatim>\<open>FileSystems\<close> behaves as \<^verbatim>\<open>os.path\<close>, every HTTP request is
  answered with status 200, the backend accepts every artifact, subprocesses and the
  pickler succeed without touching the files, and no SDK distribution is installed.
\<close>

definition env_local :: stager_env where
  "env_local = \<lparr>listdir_key = (\<lambda>n. 0),
     tmp_name = (\<lambda>k. replicate (Suc k) CHR ''x''),
     gettempdir = ''/tmp'',
     fs_join = path_join,
     fs_split = (\<lambda>p. Inr (dirname p, basename p)),
     stage_artifact_impl = (\<lambda>local_path name f. None),
     commit_manifest_impl = (\<lambda>artifacts. Inr ''token''),
     http_request = (\<lambda>url. Inr (200, ''data'')),
     check_output = (\<lambda>args cwd f. Inr f),
     dump_session = (\<lambda>p f. Inr f),
     beam_python = None,
     sys_executable = ''python'',
     version_info = (3, 7),
     sdk_version = None,
     BEAM_PACKAGE_NAME = ''apache-beam'',
     PICKLED_MAIN_SESSION_FILE = ''pickled_main_session'',
     DATAFLOW_SDK_TARBALL_FILE = ''dataflow_python_sdk.tar'',
     initial_delay = 5,
     backoff_factor = 2\<rparr>"

text \<open>
  A world with a temporary directory \<^verbatim>\<open>/t\<close>, local packages in \<^verbatim>\<open>/l\<close>, a requirements file
  in \<^verbatim>\<open>/r\<close> and a requirements cache \<^verbatim>\<open>/c\<close> that holds one package and one hidden file.
\<close>

definition w_stage :: world where
  "w_stage = initial_world
     [''/tmp'' \<mapsto> [], ''/t'' \<mapsto> [],
      ''/l'' \<mapsto> [(''a.tar.gz'', ''A''), (''b.jar'', ''B'')],
      ''/r'' \<mapsto> [(''requirements.txt'', ''six'')],
      ''/c'' \<mapsto> [(''.hidden'', ''''), (''six-1.0.tar.gz'', ''S'')]]"

definition no_options :: options where
  "no_options = \<lparr>requirements_file = None, requirements_cache = None, setup_file = None,
     extra_packages = None, jar_packages = None, save_main_session = False,
     sdk_location = None, dataflow_worker_jar = None\<rparr>"


text \<open>Environments in which every subprocess fails: with exit status 1, and without a status.\<close>

definition env_exit1 :: stager_env where
  "env_exit1 = env_local\<lparr>check_output := (\<lambda>args cwd f. Inl (CalledProcessError 1))\<rparr>"

definition env_oserror :: stager_env where
  "env_oserror = env_local\<lparr>check_output := (\<lambda>args cwd f. Inl (External ''OSError''))\<rparr>"

subsection \<open>Notions used to state the properties of the stager\<close>

text \<open>\<open>keeps sel f\<close>: the computation \<open>f\<close> never changes the component \<open>sel\<close> of the world.\<close>

definition keeps :: "(world \<Rightarrow> 'b) \<Rightarrow> 'a m \<Rightarrow> bool" where
  "keeps sel f = (\<forall>w. sel (snd (f w)) = sel w)"


text \<open>The extensions that \<^verbatim>\<open>_stage_extra_packages\<close> accepts (lines 411 to 414).\<close>

definition supported_extension :: "string \<Rightarrow> bool" where
  "supported_extension package =
     (endswith (basename package) ''.tar'' \<or> endswith (basename package) ''.tar.gz''
      \<or> endswith (basename package) ''.whl'' \<or> endswith (basename package) ''.zip'')"

text \<open>
  The names that \<^verbatim>\<open>_stage_jar_packages\<close> returns, as a function of the file system \<open>f\<close> it
  starts in: the basenames of the packages that are local files, followed by the listing
  of the downloaded ones. \<open>add_names\<close> is the content of a directory after files with the
  given names were written to it one after the other.
\<close>

fun add_names :: "string list \<Rightarrow> string list \<Rightarrow> string list" where
  "add_names ns [] = ns"
| "add_names ns (n # new) = add_names (if n \<in> set ns then ns else ns @ [n]) new"

definition jar_names :: "'e os_env_scheme \<Rightarrow> filesys \<Rightarrow> string list \<Rightarrow> string list" where
  "jar_names env f pkgs =
     map basename (filter (isfile f) pkgs)
     @ sort_key (listdir_key env) (add_names [] (map basename (filter (\<lambda>p. \<not> isfile f p) pkgs)))"

section \<open>Facts about paths and the file system\<close>

lemmas monad_defs = bindE_def return_def raise_def lift_def

lemmas fs_defs = mkdir_def makedirs_def exists_def isfile_def isdir_def write_file_def copyfile_def
  rmtree_def copytree_def listdir_def under_def put_entry_def read_file_def
  dirname_def basename_def rstrip_slash_def

lemma takeWhile_rev_noslash:
  "CHR ''/'' \<notin> set n \<Longrightarrow> takeWhile (\<lambda>c. c \<noteq> CHR ''/'') (rev n @ CHR ''/'' # xs) = rev n"
  by (induction n rule: rev_induct) auto

lemma dropWhile_rev_noslash:
  "CHR ''/'' \<notin> set n \<Longrightarrow> dropWhile (\<lambda>c. c \<noteq> CHR ''/'') (rev n @ CHR ''/'' # xs) = CHR ''/'' # xs"
  by (induction n rule: rev_induct) auto

lemma basename_append_slash:
  "CHR ''/'' \<notin> set n \<Longrightarrow> basename (a @ ''/'' @ n) = n"
  by (simp add: basename_def takeWhile_rev_noslash)

lemma basename_noslash: "CHR ''/'' \<notin> set n \<Longrightarrow> basename n = n"
proof -
  assume "CHR ''/'' \<notin> set n"
  then have "takeWhile (\<lambda>c. c \<noteq> CHR ''/'') (rev n) = rev n"
    by (auto simp: takeWhile_eq_all_conv)
  then show ?thesis unfolding basename_def by (simp only: rev_rev_ident)
qed

lemma dirname_noslash: "CHR ''/'' \<notin> set n \<Longrightarrow> dirname n = []"
proof -
  assume a: "CHR ''/'' \<notin> set n"
  then have "dropWhile (\<lambda>c. c \<noteq> CHR ''/'') (rev n) = []" by auto
  then show ?thesis by (simp add: dirname_def)
qed

lemma dirname_append_slash:
  assumes "CHR ''/'' \<notin> set n" "a \<noteq> []" "last a \<noteq> CHR ''/''"
  shows "dirname (a @ ''/'' @ n) = a"
proof -
  have h: "rev (dropWhile (\<lambda>c. c \<noteq> CHR ''/'') (rev (a @ ''/'' @ n))) = a @ ''/''"
    using assms(1) by (simp add: dropWhile_rev_noslash)
  have nall: "\<not> list_all (\<lambda>c. c = CHR ''/'') (a @ ''/'')"
  proof
    assume "list_all (\<lambda>c. c = CHR ''/'') (a @ ''/'')"
    then have "\<forall>c\<in>set a. c = CHR ''/''" by (simp add: list_all_iff)
    moreover have "last a \<in> set a" using assms(2) by (rule last_in_set)
    ultimately show False using assms(3) by blast
  qed
  obtain b x where a: "a = b @ [x]"
    using assms(2) by (cases a rule: rev_cases) auto
  then have x: "x \<noteq> CHR ''/''" using assms(3) by simp
  have "dropWhile (\<lambda>c. c = CHR ''/'') (rev a) = rev a"
    by (simp add: a x)
  then have "rstrip_slash (a @ ''/'') = a"
    by (simp add: rstrip_slash_def)
  with h nall show ?thesis
    by (simp add: dirname_def Let_def)
qed


section \<open>Properties of the license puller\<close>

lemmas license_defs = pull_from_url_def pull_from_url_body_def pull_try_block_def
  pull_except_handler_def pull_finally_def wget_download_def copy_license_files_def
  copy_license_files_body_def has_license_def main_def license_dir_def lower_def lower_char_def
  shutil_copy_def


text \<open>
  C9. The claim: \<^verbatim>\<open>pull_from_url\<close> always returns a boolean and never propagates an
  exception, so that the retry decorator never retries and a failing URL pull cannot abort
  the loop over the dependencies. The code at a URL whose download fails: the handler
  raises \<^verbatim>\<open>AttributeError\<close> at \<^verbatim>\<open>e.decode\<close>, \<^verbatim>\<open>return result\<close> in the \<^verbatim>\<open>finally\<close> block
  raises \<^verbatim>\<open>UnboundLocalError\<close>, the decorator makes three attempts (three downloads are
  logged) and raises \<^verbatim>\<open>RetryError\<close>, which ends the main loop.
\<close>

theorem pull_from_url_failing_download:
  "fst (pull_from_url_body env_offline ''foo'' [''foo'' \<mapsto> [''license'' \<mapsto> ''http://x/L'']] w0)
     = Inl (UnboundLocalError ''result'')
   \<and> fst (pull_from_url env_offline ''foo'' [''foo'' \<mapsto> [''license'' \<mapsto> ''http://x/L'']] w0)
     = Inl RetryError
   \<and> http_log (snd (pull_from_url env_offline ''foo'' [''foo'' \<mapsto> [''license'' \<mapsto> ''http://x/L'']] w0))
     = [''http://x/L'', ''http://x/L'', ''http://x/L'']
   \<and> fst (main env_offline w0) = Inl RetryError"
  by (simp add: env_offline_def w0_def initial_world_def license_defs fs_defs monad_defs numeral_3_eq_3 Let_def)



subsection \<open>The final check of the main program\<close>

lemma offending_Nil: "offending env cfg [] w = []"
  by (simp add: offending_def)

lemma offending_Cons:
  "has_license env cfg d w = (Inr ok, w') \<Longrightarrow>
   offending env cfg (d # ds) w = (if ok then [] else [lower (Name d)]) @ offending env cfg ds w'"
  by (simp add: offending_def)

lemma pull_loop_offending:
  "length (obtained_license env cfg ds w) = length ds \<Longrightarrow>
   fst (pull_loop env cfg ds acc w) = Inr (acc @ offending env cfg ds w)"
proof (induction ds arbitrary: acc w)
  case Nil
  then show ?case by (simp add: offending_Nil)
next
  case (Cons d ds)
  obtain r w' where h: "has_license env cfg d w = (r, w')" by (cases "has_license env cfg d w")
  show ?case
  proof (cases r)
    case (Inl e)
    with Cons.prems h show ?thesis by simp
  next
    case (Inr ok)
    with Cons.prems h have len: "length (obtained_license env cfg ds w') = length ds" by simp
    from h Inr have hl: "has_license env cfg d w = (Inr ok, w')" by simp
    show ?thesis
      using Cons.IH[OF len] by (simp add: hl offending_Cons[OF hl])
  qed
qed

lemma offending_empty_iff:
  "length (obtained_license env cfg ds w) = length ds \<Longrightarrow>
   offending env cfg ds w = [] \<longleftrightarrow> (\<forall>ok\<in>set (obtained_license env cfg ds w). ok)"
proof (induction ds arbitrary: w)
  case Nil
  then show ?case by (simp add: offending_Nil)
next
  case (Cons d ds)
  obtain r w' where h: "has_license env cfg d w = (r, w')" by (cases "has_license env cfg d w")
  show ?case
  proof (cases r)
    case (Inl e)
    with Cons.prems h show ?thesis by simp
  next
    case (Inr ok)
    with Cons.prems h have len: "length (obtained_license env cfg ds w') = length ds" by simp
    from h Inr have hl: "has_license env cfg d w = (Inr ok, w')" by simp
    show ?thesis
      using Cons.IH[OF len] by (simp add: hl offending_Cons[OF hl])
  qed
qed

text \<open>
  C7. When the licenses directory is created, the configuration and the pip-licenses output
  are read, and every dependency is processed (no exception ends the loop), the script
  completes without error if every dependency obtained a license, and otherwise aborts
  with the error whose message lists the lowercased names of exactly the dependencies
  that obtained none, in order.
\<close>

theorem missing_licenses_abort:
  assumes dirs: "fst (makedirs license_dir w) = Inr ()"
    and cfg: "dep_config env = Inr cfg"
    and deps: "pip_licenses env = Inr deps"
    and processed: "length (obtained_license env cfg deps (snd (makedirs license_dir w))) = length deps"
  shows "fst (main env w) =
           (if \<forall>ok\<in>set (obtained_license env cfg deps (snd (makedirs license_dir w))). ok
            then Inr ()
            else Inl (MissingLicenses (offending env cfg deps (snd (makedirs license_dir w)))))"
proof -
  obtain w1 where m: "makedirs license_dir w = (Inr (), w1)"
    using dirs by (cases "makedirs license_dir w") simp
  then have s: "snd (makedirs license_dir w) = w1" by simp
  have p: "length (obtained_license env cfg deps w1) = length deps"
    using processed by (simp only: s)
  obtain r w2 where l: "pull_loop env cfg deps [] w1 = (r, w2)"
    by (cases "pull_loop env cfg deps [] w1")
  with pull_loop_offending[OF p, of "[]"]
  have l': "pull_loop env cfg deps [] w1 = (Inr (offending env cfg deps w1), w2)" by simp
  show ?thesis
    unfolding s using offending_empty_iff[OF p]
    by (simp add: main_def bindE_def lift_def raise_def return_def m cfg deps l')
qed

lemma two_deps_makedirs: "fst (makedirs license_dir w_lic) = Inr ()"
  by (simp add: w_lic_def initial_world_def fs_defs license_dir_def)

lemma two_deps_obtained: "obtained_license env_two [''pip_dependencies'' \<mapsto> Map.empty]
        [\<lparr>Name = ''Good'', LicenseFile = ''/lic/GOOD''\<rparr>, \<lparr>Name = ''Bad'', LicenseFile = ''UNKNOWN''\<rparr>]
        (snd (makedirs license_dir w_lic)) = [True, False]"
  by (simp add: w_lic_def initial_world_def env_two_def license_defs fs_defs monad_defs numeral_3_eq_3 Let_def)

lemma two_deps_offending: "offending env_two [''pip_dependencies'' \<mapsto> Map.empty]
        [\<lparr>Name = ''Good'', LicenseFile = ''/lic/GOOD''\<rparr>, \<lparr>Name = ''Bad'', LicenseFile = ''UNKNOWN''\<rparr>]
        (snd (makedirs license_dir w_lic)) = [''bad'']"
  unfolding offending_def two_deps_obtained by (simp add: lower_def lower_char_def)

theorem missing_licenses_abort_witness:
  "fst (makedirs license_dir w_lic) = Inr ()
   \<and> dep_config env_two = Inr [''pip_dependencies'' \<mapsto> Map.empty]
   \<and> pip_licenses env_two = Inr [\<lparr>Name = ''Good'', LicenseFile = ''/lic/GOOD''\<rparr>, \<lparr>Name = ''Bad'', LicenseFile = ''UNKNOWN''\<rparr>]
   \<and> length (obtained_license env_two [''pip_dependencies'' \<mapsto> Map.empty]
        [\<lparr>Name = ''Good'', LicenseFile = ''/lic/GOOD''\<rparr>, \<lparr>Name = ''Bad'', LicenseFile = ''UNKNOWN''\<rparr>]
        (snd (makedirs license_dir w_lic))) = 2
   \<and> fst (main env_two w_lic) = Inl (MissingLicenses [''bad''])"
proof -
  have c: "dep_config env_two = Inr [''pip_dependencies'' \<mapsto> Map.empty]"
    by (simp add: env_two_def)
  have d: "pip_licenses env_two = Inr [\<lparr>Name = ''Good'', LicenseFile = ''/lic/GOOD''\<rparr>, \<lparr>Name = ''Bad'', LicenseFile = ''UNKNOWN''\<rparr>]"
    by (simp add: env_two_def)
  have l: "length (obtained_license env_two [''pip_dependencies'' \<mapsto> Map.empty]
        [\<lparr>Name = ''Good'', LicenseFile = ''/lic/GOOD''\<rparr>, \<lparr>Name = ''Bad'', LicenseFile = ''UNKNOWN''\<rparr>]
        (snd (makedirs license_dir w_lic)))
     = length [\<lparr>Name = ''Good'', LicenseFile = ''/lic/GOOD''\<rparr>, \<lparr>Name = ''Bad'', LicenseFile = ''UNKNOWN''\<rparr>]"
    unfolding two_deps_obtained by simp
  have "fst (main env_two w_lic) = Inl (MissingLicenses [''bad''])"
    using missing_licenses_abort[OF two_deps_makedirs c d l] unfolding two_deps_obtained two_deps_offending by simp
  with two_deps_makedirs c d l show ?thesis by simp
qed

section \<open>Properties of the stager\<close>

subsection \<open>Runs on the example inputs\<close>

text \<open>
  C1. The claim: the manifest file \<^verbatim>\<open>extra_packages.txt\<close> lists the basenames in the order of
  the input list, also for a list that mixes local and remote paths. The code on the list
  of a remote package followed by a local one: the remote package is downloaded into the
  staging directory and appended after the local one, so the manifest (and the returned
  list) has the local package first.
\<close>

theorem extra_packages_remote_before_local:
  "fst (stage_extra_packages env_local [''http://h/r.tar.gz'', ''/l/a.tar.gz''] ''/staging'' ''/t'' w_stage)
     = Inr [''a.tar.gz'', ''r.tar.gz'', ''extra_packages.txt'']
   \<and> read_file (fs (snd (stage_extra_packages env_local [''http://h/r.tar.gz'', ''/l/a.tar.gz'']
                            ''/staging'' ''/t'' w_stage)))
        ''/t/extra_packages.txt'' = ''a.tar.gz'' @ [CHR 0x0A] @ ''r.tar.gz'' @ [CHR 0x0A]
   \<and> map basename [''http://h/r.tar.gz'', ''/l/a.tar.gz''] = [''r.tar.gz'', ''a.tar.gz'']"
  by code_simp

text \<open>
  C2, as stated, fails: without a staging location the call raises and the temporary
  directory that was passed in is still there.
\<close>

theorem temp_dir_left_on_error:
  "fst (stage_job_resources env_local no_options None (Some ''/t'') None None w_stage)
     = Inl StagingLocationMissing
   \<and> isdir (fs (snd (stage_job_resources env_local no_options None (Some ''/t'') None None w_stage))) ''/t''"
  by code_simp

text \<open>
  C3, as stated, fails: a remote package that precedes the package with the unsupported
  extension is requested and written to the staging directory before the error is raised.
\<close>

theorem bad_extension_after_download:
  "fst (stage_extra_packages env_local [''http://h/r.tar.gz'', ''/l/bad.txt''] ''/staging'' ''/t'' w_stage)
     = Inl (ExtraPackageBadExtension ''/l/bad.txt'')
   \<and> http_log (snd (stage_extra_packages env_local [''http://h/r.tar.gz'', ''/l/bad.txt'']
                       ''/staging'' ''/t'' w_stage)) = [''http://h/r.tar.gz'']
   \<and> isfile (fs (snd (stage_extra_packages env_local [''http://h/r.tar.gz'', ''/l/bad.txt'']
                         ''/staging'' ''/t'' w_stage))) ''/t/tmpx/r.tar.gz''"
  by code_simp


subsection \<open>The temporary directory\<close>

lemma rmtree_removes: "rmtree d w = (Inr u, w') \<Longrightarrow> fs w' d = None"
  by (auto simp: rmtree_def under_def split: if_splits)

lemma commit_manifest_fs: "commit_manifest env w = (r, w') \<Longrightarrow> fs w' = fs w"
  by (auto simp: commit_manifest_def split: sum.splits)

text \<open>
  C2, amended. Whenever \<^verbatim>\<open>stage_job_resources\<close> returns normally, the temporary directory
  of the call (the one passed in, or the one created at line 150) is not a directory any
  more when control returns. Nothing removes it on the error exits.
\<close>

theorem temp_dir_removed_on_return:
  assumes ret: "stage_job_resources env opts build_setup_args temp_dir populate staging_location w
                  = (Inr result, w')"
  shows "\<exists>d w1. resolve_temp_dir env temp_dir w = (Inr d, w1) \<and> \<not> isdir (fs w') d"
proof -
  obtain r1 w1 where a: "resolve_temp_dir env temp_dir w = (r1, w1)"
    by (cases "resolve_temp_dir env temp_dir w")
  with ret obtain d where d: "r1 = Inr d"
    by (cases r1) (auto simp: stage_job_resources_def bindE_def)
  obtain r2 w2 where b: "staging_steps env opts build_setup_args populate staging_location d w1 = (r2, w2)"
    by (cases "staging_steps env opts build_setup_args populate staging_location d w1")
  with ret a d obtain resources where r: "r2 = Inr resources"
    by (cases r2) (auto simp: stage_job_resources_def bindE_def)
  obtain r3 w3 where c: "rmtree d w2 = (r3, w3)" by (cases "rmtree d w2")
  with ret a d b r obtain u where u: "r3 = Inr u"
    by (cases r3) (auto simp: stage_job_resources_def bindE_def)
  obtain r4 w4 where e: "commit_manifest env w3 = (r4, w4)" by (cases "commit_manifest env w3")
  with ret a d b r c u have "w' = w4"
    by (cases r4) (auto simp: stage_job_resources_def bindE_def return_def)
  moreover have "fs w4 = fs w3" using e by (rule commit_manifest_fs)
  moreover have "fs w3 d = None" using c u rmtree_removes by simp
  ultimately have "\<not> isdir (fs w') d" by (simp add: isdir_def)
  with a d show ?thesis by simp
qed

theorem temp_dir_removed_witness:
  "stage_job_resources env_local no_options None (Some ''/t'') None (Some ''/staging'') w_stage
     = (Inr (''token'', []),
        snd (stage_job_resources env_local no_options None (Some ''/t'') None (Some ''/staging'') w_stage))
   \<and> isdir (fs w_stage) ''/t''
   \<and> \<not> isdir (fs (snd (stage_job_resources env_local no_options None (Some ''/t'') None
                           (Some ''/staging'') w_stage))) ''/t''"
proof -
  have f: "fst (stage_job_resources env_local no_options None (Some ''/t'') None (Some ''/staging'') w_stage)
      = Inr (''token'', [])"
    by code_simp
  then have r: "stage_job_resources env_local no_options None (Some ''/t'') None (Some ''/staging'') w_stage
     = (Inr (''token'', []),
        snd (stage_job_resources env_local no_options None (Some ''/t'') None (Some ''/staging'') w_stage))"
    by (metis prod.collapse)
  have t: "resolve_temp_dir env_local (Some ''/t'') w_stage = (Inr ''/t'', w_stage)"
    by (simp add: resolve_temp_dir_def return_def)
  have i: "isdir (fs w_stage) ''/t''" by code_simp
  from temp_dir_removed_on_return[OF r] t i r show ?thesis by auto
qed

subsection \<open>The retried download\<close>

lemma retry_on_non_zero_exit_iff:
  "retry_on_non_zero_exit e \<longleftrightarrow> (\<exists>rc. e = CalledProcessError rc \<and> rc \<noteq> 0)"
  by (cases e) (simp_all add: retry_on_non_zero_exit_def)

lemma backoff_success:
  "f w = (Inr x, w') \<Longrightarrow> with_exponential_backoff n flt fac d f w = (Inr x, w')"
  by (cases n; cases "n - 1") auto

lemma backoff_not_retried:
  "f w = (Inl e, w') \<Longrightarrow> \<not> flt e \<Longrightarrow> with_exponential_backoff n flt fac d f w = (Inl e, w')"
  by (cases n; cases "n - 1") auto

text \<open>What one run of the body does to the logs.\<close>

lemma body_logs:
  "populate_requirements_cache_body env rf c w = (r, w') \<Longrightarrow>
     length (proc_log w') \<le> Suc (length (proc_log w)) \<and> sleeps w' = sleeps w"
  by (auto simp: populate_requirements_cache_body_def get_python_executable_def bindE_def
        return_def raise_def run_process_def Let_def split: if_splits sum.splits option.splits)

lemma backoff_bounds:
  "(\<And>w r w'. f w = (r, w') \<Longrightarrow>
            length (proc_log w') \<le> Suc (length (proc_log w)) \<and> sleeps w' = sleeps w) \<Longrightarrow>
   length (proc_log (snd (with_exponential_backoff n flt fac d f w)))
           \<le> length (proc_log w) + max 1 n
       \<and> (\<exists>k < max 1 n. sleeps (snd (with_exponential_backoff n flt fac d f w))
             = sleeps w @ map (\<lambda>i. fac ^ i * d) [0..<k])"
proof (induction n flt fac d f w rule: with_exponential_backoff.induct)
  case (1 flt fac d f w)
  obtain r w' where h: "f w = (r, w')" by (cases "f w")
  from "1.prems"[OF h] h show ?case by (auto intro: exI[of _ 0])
next
  case (2 flt fac d f w)
  obtain r w' where h: "f w = (r, w')" by (cases "f w")
  from "2.prems"[OF h] h show ?case by (auto intro: exI[of _ 0])
next
  case (3 n flt fac d f w)
  obtain r w' where h: "f w = (r, w')" by (cases "f w")
  note s = "3.prems"[OF h]
  show ?case
  proof (cases r)
    case (Inr x)
    with h s show ?thesis by (auto intro: exI[of _ 0])
  next
    case (Inl e)
    show ?thesis
    proof (cases "flt e")
      case False
      with h s Inl show ?thesis by (auto intro: exI[of _ 0])
    next
      case True
      let ?w2 = "w'\<lparr>sleeps := sleeps w' @ [d]\<rparr>"
      let ?res = "with_exponential_backoff (Suc n) flt fac (fac * d) f ?w2"
      have eq: "with_exponential_backoff (Suc (Suc n)) flt fac d f w = ?res"
        using h Inl True by simp
      from "3.IH"[OF h[symmetric] Inl True "3.prems"]
      have len: "length (proc_log (snd ?res)) \<le> length (proc_log ?w2) + max 1 (Suc n)"
        and ex: "\<exists>k < max 1 (Suc n). sleeps (snd ?res) = sleeps ?w2 @ map (\<lambda>i. fac ^ i * (fac * d)) [0..<k]"
        by auto
      from ex obtain k where k: "k < max 1 (Suc n)"
        and sl: "sleeps (snd ?res) = sleeps ?w2 @ map (\<lambda>i. fac ^ i * (fac * d)) [0..<k]" by blast
      have "map (\<lambda>i. fac ^ i * d) [0..<Suc k] = d # map (\<lambda>i. fac ^ i * (fac * d)) [0..<k]"
        by (simp add: upt_rec[of 0] map_Suc_upt[symmetric] del: upt_Suc) 
      with sl s have "sleeps (snd ?res) = sleeps w @ map (\<lambda>i. fac ^ i * d) [0..<Suc k]"
        by simp
      moreover have "Suc k < max 1 (Suc (Suc n))" using k by simp
      ultimately have "\<exists>k < max 1 (Suc (Suc n)). sleeps (snd ?res) = sleeps w @ map (\<lambda>i. fac ^ i * d) [0..<k]"
        by blast
      moreover have "length (proc_log (snd ?res)) \<le> length (proc_log w) + max 1 (Suc (Suc n))"
        using len s by simp
      ultimately show ?thesis unfolding eq by blast
    qed
  qed
qed


text \<open>
  C6. With the decorator as the spec describes it: the download runs at most 4 times;
  the sleeps between the attempts grow by a constant factor; a failure that is not a
  \<^verbatim>\<open>CalledProcessError\<close> with a non-zero return code ends the call at once with that
  failure, a success ends it with the result, and a non-zero exit is followed by a sleep
  and the remaining attempts.
\<close>

theorem populate_requirements_cache_attempts:
  "length (proc_log (snd (populate_requirements_cache env rf c w))) \<le> length (proc_log w) + 4
   \<and> (\<exists>k < 4. sleeps (snd (populate_requirements_cache env rf c w))
          = sleeps w @ map (\<lambda>i. backoff_factor env ^ i * initial_delay env) [0..<k])
   \<and> (\<forall>e w'. populate_requirements_cache_body env rf c w = (Inl e, w')
          \<and> \<not> (\<exists>rc. e = CalledProcessError rc \<and> rc \<noteq> 0)
        \<longrightarrow> populate_requirements_cache env rf c w = (Inl e, w'))
   \<and> (\<forall>x w'. populate_requirements_cache_body env rf c w = (Inr x, w')
        \<longrightarrow> populate_requirements_cache env rf c w = (Inr x, w'))
   \<and> (\<forall>rc w'. populate_requirements_cache_body env rf c w = (Inl (CalledProcessError rc), w')
          \<and> rc \<noteq> 0
        \<longrightarrow> populate_requirements_cache env rf c w
            = with_exponential_backoff 3 retry_on_non_zero_exit (backoff_factor env)
                (backoff_factor env * initial_delay env)
                (populate_requirements_cache_body env rf c)
                (w'\<lparr>sleeps := sleeps w' @ [initial_delay env]\<rparr>))"
proof -
  have b: "length (proc_log (snd (populate_requirements_cache env rf c w))) \<le> length (proc_log w) + 4
     \<and> (\<exists>k < 4. sleeps (snd (populate_requirements_cache env rf c w))
          = sleeps w @ map (\<lambda>i. backoff_factor env ^ i * initial_delay env) [0..<k])"
    using backoff_bounds[of "populate_requirements_cache_body env rf c" 4 retry_on_non_zero_exit
        "backoff_factor env" "initial_delay env" w, OF body_logs]
    by (simp add: populate_requirements_cache_def)
  have n: "\<forall>e w'. populate_requirements_cache_body env rf c w = (Inl e, w')
          \<and> \<not> (\<exists>rc. e = CalledProcessError rc \<and> rc \<noteq> 0)
        \<longrightarrow> populate_requirements_cache env rf c w = (Inl e, w')"
    by (simp add: populate_requirements_cache_def backoff_not_retried retry_on_non_zero_exit_iff)
  have s: "\<forall>x w'. populate_requirements_cache_body env rf c w = (Inr x, w')
        \<longrightarrow> populate_requirements_cache env rf c w = (Inr x, w')"
    by (simp add: populate_requirements_cache_def backoff_success)
  have r: "\<forall>rc w'. populate_requirements_cache_body env rf c w = (Inl (CalledProcessError rc), w')
          \<and> rc \<noteq> 0
        \<longrightarrow> populate_requirements_cache env rf c w
            = with_exponential_backoff 3 retry_on_non_zero_exit (backoff_factor env)
                (backoff_factor env * initial_delay env)
                (populate_requirements_cache_body env rf c)
                (w'\<lparr>sleeps := sleeps w' @ [initial_delay env]\<rparr>)"
    by (simp add: populate_requirements_cache_def numeral_eq_Suc retry_on_non_zero_exit_def)
  from b n s r show ?thesis by blast
qed

theorem populate_requirements_cache_witness:
  "fst (populate_requirements_cache env_local ''/r/requirements.txt'' ''/c'' w_stage) = Inr ()
   \<and> fst (populate_requirements_cache env_oserror ''/r/requirements.txt'' ''/c'' w_stage)
       = Inl (External ''OSError'')
   \<and> length (proc_log (snd (populate_requirements_cache env_oserror ''/r/requirements.txt'' ''/c'' w_stage))) = 1
   \<and> fst (populate_requirements_cache env_exit1 ''/r/requirements.txt'' ''/c'' w_stage)
       = Inl (CalledProcessError 1)
   \<and> length (proc_log (snd (populate_requirements_cache env_exit1 ''/r/requirements.txt'' ''/c'' w_stage))) = 4
   \<and> sleeps (snd (populate_requirements_cache env_exit1 ''/r/requirements.txt'' ''/c'' w_stage)) = [5, 10, 20]"
proof -
  let ?rf = "''/r/requirements.txt''" and ?c = "''/c''"
  have ok: "fst (populate_requirements_cache_body env_local ?rf ?c w_stage) = Inr ()"
    by code_simp
  then have ok': "populate_requirements_cache_body env_local ?rf ?c w_stage
      = (Inr (), snd (populate_requirements_cache_body env_local ?rf ?c w_stage))"
    by (metis prod.collapse)
  have os: "fst (populate_requirements_cache_body env_oserror ?rf ?c w_stage) = Inl (External ''OSError'')"
    and os1: "length (proc_log (snd (populate_requirements_cache_body env_oserror ?rf ?c w_stage))) = 1"
    by code_simp+
  from os have os': "populate_requirements_cache_body env_oserror ?rf ?c w_stage
      = (Inl (External ''OSError''), snd (populate_requirements_cache_body env_oserror ?rf ?c w_stage))"
    by (metis prod.collapse)
  have e1: "fst (populate_requirements_cache env_exit1 ?rf ?c w_stage) = Inl (CalledProcessError 1)"
    and e2: "sleeps (snd (populate_requirements_cache env_exit1 ?rf ?c w_stage)) = [5, 10, 20]"
    and e3: "4 \<le> length (proc_log (snd (populate_requirements_cache env_exit1 ?rf ?c w_stage)))"
    and e4: "length (proc_log w_stage) = 0"
    by code_simp+
  note a = populate_requirements_cache_attempts[of env_local ?rf ?c w_stage]
  note b = populate_requirements_cache_attempts[of env_oserror ?rf ?c w_stage]
  note c = populate_requirements_cache_attempts[of env_exit1 ?rf ?c w_stage]
  from a have "populate_requirements_cache_body env_local ?rf ?c w_stage
        = (Inr (), snd (populate_requirements_cache_body env_local ?rf ?c w_stage))
      \<longrightarrow> populate_requirements_cache env_local ?rf ?c w_stage
        = (Inr (), snd (populate_requirements_cache_body env_local ?rf ?c w_stage))"
    by blast
  from this ok' have "populate_requirements_cache env_local ?rf ?c w_stage
        = (Inr (), snd (populate_requirements_cache_body env_local ?rf ?c w_stage))"
    by (rule mp)
  then have 1: "fst (populate_requirements_cache env_local ?rf ?c w_stage) = Inr ()"
    by simp
  from b have "populate_requirements_cache_body env_oserror ?rf ?c w_stage
        = (Inl (External ''OSError''), snd (populate_requirements_cache_body env_oserror ?rf ?c w_stage))
      \<and> \<not> (\<exists>rc. External ''OSError'' = CalledProcessError rc \<and> rc \<noteq> 0)
      \<longrightarrow> populate_requirements_cache env_oserror ?rf ?c w_stage
      = (Inl (External ''OSError''), snd (populate_requirements_cache_body env_oserror ?rf ?c w_stage))"
    by blast
  moreover have "\<not> (\<exists>rc. External ''OSError'' = CalledProcessError rc \<and> rc \<noteq> 0)"
    by simp
  ultimately have "populate_requirements_cache env_oserror ?rf ?c w_stage
      = (Inl (External ''OSError''), snd (populate_requirements_cache_body env_oserror ?rf ?c w_stage))"
    using os' by blast
  with os1 have 2: "fst (populate_requirements_cache env_oserror ?rf ?c w_stage) = Inl (External ''OSError'')"
    and 3: "length (proc_log (snd (populate_requirements_cache env_oserror ?rf ?c w_stage))) = 1"
    by simp_all
  from c e3 e4 have 4: "length (proc_log (snd (populate_requirements_cache env_exit1 ?rf ?c w_stage))) = 4"
    by simp
  from 1 2 3 4 e1 e2 show ?thesis by simp
qed

subsection \<open>What the staging steps leave unchanged\<close>

lemma keepsD: "keeps sel f \<Longrightarrow> sel (snd (f w)) = sel w"
  by (simp add: keeps_def)

lemma keepsE: "keeps sel f \<Longrightarrow> f w = (r, w') \<Longrightarrow> sel w' = sel w"
  by (auto simp: keeps_def dest: spec[of _ w])




lemma keeps_bindE: "keeps sel f \<Longrightarrow> (\<And>x. keeps sel (g x)) \<Longrightarrow> keeps sel (bindE f g)"
proof -
  assume f: "keeps sel f" and g: "\<And>x. keeps sel (g x)"
  show ?thesis unfolding keeps_def
  proof
    fix w :: world
    obtain r w' where h: "f w = (r, w')" by (cases "f w")
    from keepsD[OF f, of w] h have a: "sel w' = sel w" by simp
    show "sel (snd (bindE f g w)) = sel w"
    proof (cases r)
      case (Inl e)
      with h a show ?thesis by (simp add: bindE_def)
    next
      case (Inr x)
      with h a keepsD[OF g, of x w'] show ?thesis by (simp add: bindE_def)
    qed
  qed
qed














































subsection \<open>The default SDK\<close>










subsection \<open>The returned list of resources\<close>

lemma stage_packages_result:
  "stage_packages env loc ps acc w = (Inr r, w') \<Longrightarrow> r = acc @ map basename ps"
proof (induction ps arbitrary: acc w)
  case Nil
  then show ?case by simp
next
  case (Cons p ps)
  obtain r1 w1 where h: "stage_artifact env p (fs_join env loc (basename p)) w = (r1, w1)"
    by (cases "stage_artifact env p (fs_join env loc (basename p)) w")
  show ?case
  proof (cases r1)
    case (Inl e)
    with Cons.prems h show ?thesis by (simp add: Let_def)
  next
    case (Inr u)
    with Cons.prems h have "stage_packages env loc ps (acc @ [basename p]) w1 = (Inr r, w')"
      by (simp add: Let_def)
    from Cons.IH[OF this] show ?thesis by simp
  qed
qed

lemma bindE_InrE:
  assumes "bindE f g w = (Inr r, w')"
  obtains x w1 where "f w = (Inr x, w1)" "g x w1 = (Inr r, w')"
proof -
  obtain r1 w1 where h: "f w = (r1, w1)" by (cases "f w")
  with assms obtain x where "r1 = Inr x" by (cases r1) (auto simp: bindE_def)
  with assms h that show ?thesis by (auto simp: bindE_def)
qed












subsection \<open>Unsupported extensions\<close>

lemma keeps_mkdir_gen:
  assumes "\<And>w f. sel (w\<lparr>fs := f\<rparr>) = sel w"
  shows "keeps sel (mkdir p)"
  using assms by (simp add: keeps_def mkdir_def)

lemma keeps_mkdtemp_loop_gen:
  assumes f: "\<And>(w::world) f. sel (w\<lparr>fs := f\<rparr>) = sel w"
    and t: "\<And>(w::world) n. sel (w\<lparr>tmp_seq := n\<rparr>) = sel w"
  shows "keeps sel (mkdtemp_loop env k dir)"
  unfolding keeps_def
proof (induction k)
  case 0
  show ?case by simp
next
  case (Suc k)
  show ?case
  proof
    fix w :: world
    let ?file = "path_join dir (''tmp'' @ tmp_name env (tmp_seq w))"
    let ?w1 = "w\<lparr>tmp_seq := Suc (tmp_seq w)\<rparr>"
    obtain r w2 where h: "mkdir ?file ?w1 = (r, w2)" by (cases "mkdir ?file ?w1")
    from keepsE[OF keeps_mkdir_gen[of sel, OF f] h] t have a: "sel w2 = sel w" by simp
    show "sel (snd (mkdtemp_loop env (Suc k) dir w)) = sel w"
      using h a Suc by (cases r) (auto simp: Let_def split: exn.splits)
  qed
qed

lemma keeps_mkdtemp_gen:
  assumes "\<And>(w::world) f. sel (w\<lparr>fs := f\<rparr>) = sel w"
    and "\<And>(w::world) n. sel (w\<lparr>tmp_seq := n\<rparr>) = sel w"
  shows "keeps sel (mkdtemp env d)"
  using assms by (simp add: mkdtemp_def keeps_mkdtemp_loop_gen)

lemma keeps_staged_mkdtemp: "keeps staged (mkdtemp env d)"
  by (rule keeps_mkdtemp_gen) simp_all

lemma keeps_http_log_mkdtemp: "keeps http_log (mkdtemp env d)"
  by (rule keeps_mkdtemp_gen) simp_all

lemma download_file_logs:
  assumes "download_file env a b w = (r, w')"
  shows "staged w' = staged w \<and> (http_log w' = http_log w \<or> http_log w' = http_log w @ [a])"
proof (cases "startswith a ''http://'' \<or> startswith a ''https://''")
  case True
  with assms show ?thesis
    by (auto simp: download_file_def Let_def write_file_def split: sum.splits prod.splits if_splits option.splits)
next
  case False
  have k1: "keeps staged (bindE (\<lambda>w. if \<not> isdir (fs w) (dirname b) then mkdir (dirname b) w else (Inr (), w))
          (\<lambda>u. copyfile a b))"
    by (intro keeps_bindE) (simp_all add: keeps_def mkdir_def copyfile_def write_file_def split: option.splits)
  have k2: "keeps http_log (bindE (\<lambda>w. if \<not> isdir (fs w) (dirname b) then mkdir (dirname b) w else (Inr (), w))
          (\<lambda>u. copyfile a b))"
    by (intro keeps_bindE) (simp_all add: keeps_def mkdir_def copyfile_def write_file_def split: option.splits)
  from assms False keepsE[OF k1] keepsE[OF k2] show ?thesis
    by (simp add: download_file_def)
qed

lemma extra_loop_unsupported:
  assumes "\<exists>p\<in>set pkgs. \<not> supported_extension p"
  shows "isl (fst (extra_packages_loop env std pkgs acc w))
       \<and> staged (snd (extra_packages_loop env std pkgs acc w)) = staged w
       \<and> (\<exists>urls. http_log (snd (extra_packages_loop env std pkgs acc w)) = http_log w @ urls
             \<and> set urls \<subseteq> set (takeWhile supported_extension pkgs))"
  using assms
proof (induction pkgs arbitrary: acc w)
  case Nil
  then show ?case by simp
next
  case (Cons p ps)
  show ?case
  proof (cases "supported_extension p")
    case False
    then show ?thesis by (simp add: supported_extension_def)
  next
    case True
    with Cons.prems have bad: "\<exists>p\<in>set ps. \<not> supported_extension p" by simp
    from True have ok: "endswith (basename p) ''.tar'' \<or> endswith (basename p) ''.tar.gz''
             \<or> endswith (basename p) ''.whl'' \<or> endswith (basename p) ''.zip''"
      by (simp add: supported_extension_def)
    show ?thesis
    proof (cases "isfile (fs w) p")
      case f: True
      from Cons.IH[OF bad, of "acc @ [p]" w] obtain urls where
        "isl (fst (extra_packages_loop env std ps (acc @ [p]) w))"
        "staged (snd (extra_packages_loop env std ps (acc @ [p]) w)) = staged w"
        "http_log (snd (extra_packages_loop env std ps (acc @ [p]) w)) = http_log w @ urls"
        "set urls \<subseteq> set (takeWhile supported_extension ps)" by blast
      with ok f True show ?thesis by auto
    next
      case nf: False
      show ?thesis
      proof (cases "is_remote_path p")
        case False
        with ok nf show ?thesis by simp
      next
        case rem: True
        show ?thesis
        proof (cases "fs_split env p")
          case (Inl e)
          with ok nf rem show ?thesis by simp
        next
          case (Inr ht)
          obtain h t where ht: "ht = (h, t)" by (cases ht)
          obtain r w1 where d: "download_file env p (fs_join env std t) w = (r, w1)"
            by (cases "download_file env p (fs_join env std t) w")
          note dl = download_file_logs[OF d]
          show ?thesis
          proof (cases r)
            case e: (Inl e)
            have "extra_packages_loop env std (p # ps) acc w = (Inl e, w1)"
              using ok nf rem Inr ht d e by (simp add: Let_def)
            moreover from dl have "\<exists>urls. http_log w1 = http_log w @ urls \<and> set urls \<subseteq> {p}"
              by (auto intro: exI[of _ "[]"] exI[of _ "[p]"])
            ultimately show ?thesis using dl True by auto
          next
            case u: (Inr u)
            have eq: "extra_packages_loop env std (p # ps) acc w = extra_packages_loop env std ps acc w1"
              using ok nf rem Inr ht d u by (simp add: Let_def)
            from Cons.IH[OF bad, of acc w1] obtain urls where ih:
              "isl (fst (extra_packages_loop env std ps acc w1))"
              "staged (snd (extra_packages_loop env std ps acc w1)) = staged w1"
              "http_log (snd (extra_packages_loop env std ps acc w1)) = http_log w1 @ urls"
              "set urls \<subseteq> set (takeWhile supported_extension ps)" by blast
            from dl obtain pre where pre: "http_log w1 = http_log w @ pre" "set pre \<subseteq> {p}"
              by (auto intro: that[of "[]"] that[of "[p]"])
            have "http_log (snd (extra_packages_loop env std ps acc w1)) = http_log w @ (pre @ urls)"
              using ih(3) pre(1) by simp
            moreover have "set (pre @ urls) \<subseteq> set (takeWhile supported_extension (p # ps))"
              using pre(2) ih(4) True by auto
            ultimately have "\<exists>us. http_log (snd (extra_packages_loop env std ps acc w1)) = http_log w @ us
                 \<and> set us \<subseteq> set (takeWhile supported_extension (p # ps))"
              by (intro exI[of _ "pre @ urls"] conjI)
            moreover have "staged (snd (extra_packages_loop env std ps acc w1)) = staged w"
              using ih(2) dl by simp
            ultimately show ?thesis unfolding eq using ih(1) by (intro conjI)
          qed
        qed
      qed
    qed
  qed
qed


text \<open>
  C3, amended. When some package of the list has an unsupported extension,
  \<^verbatim>\<open>_stage_extra_packages\<close> raises, nothing has been handed to the staging backend, and
  the only URLs requested are packages that stand before the first unsupported package in
  the list (none, when the first package is the unsupported one).
\<close>

theorem unsupported_extension_rejected:
  assumes bad: "\<exists>p\<in>set pkgs. \<not> supported_extension p"
  shows "isl (fst (stage_extra_packages env pkgs loc tmp w))
       \<and> staged (snd (stage_extra_packages env pkgs loc tmp w)) = staged w
       \<and> (\<exists>urls. http_log (snd (stage_extra_packages env pkgs loc tmp w)) = http_log w @ urls
             \<and> set urls \<subseteq> set (takeWhile supported_extension pkgs))"
proof -
  obtain r1 w1 where m: "mkdtemp env (Some tmp) w = (r1, w1)"
    by (cases "mkdtemp env (Some tmp) w")
  from keepsE[OF keeps_staged_mkdtemp m] have s1: "staged w1 = staged w" .
  from keepsE[OF keeps_http_log_mkdtemp m] have h1: "http_log w1 = http_log w" .
  show ?thesis
  proof (cases r1)
    case (Inl e)
    with m s1 h1 show ?thesis by (simp add: stage_extra_packages_def bindE_def)
  next
    case (Inr std)
    obtain r2 w2 where l: "extra_packages_loop env std pkgs [] w1 = (r2, w2)"
      by (cases "extra_packages_loop env std pkgs [] w1")
    from extra_loop_unsupported[OF bad, of env std "[]" w1] l s1 h1
    obtain e where e: "r2 = Inl e" and s2: "staged w2 = staged w"
      and h2: "\<exists>urls. http_log w2 = http_log w @ urls
                 \<and> set urls \<subseteq> set (takeWhile supported_extension pkgs)"
      by (cases r2) auto
    have "stage_extra_packages env pkgs loc tmp w = (Inl e, w2)"
      by (simp add: stage_extra_packages_def bindE_def m Inr l e)
    with s2 h2 show ?thesis by simp
  qed
qed

theorem unsupported_extension_witness:
  "(\<exists>p\<in>set [''/l/bad.txt'', ''http://h/r.tar.gz'']. \<not> supported_extension p)
   \<and> fst (stage_extra_packages env_local [''/l/bad.txt'', ''http://h/r.tar.gz''] ''/staging'' ''/t'' w_stage)
       = Inl (ExtraPackageBadExtension ''/l/bad.txt'')
   \<and> staged (snd (stage_extra_packages env_local [''/l/bad.txt'', ''http://h/r.tar.gz'']
                      ''/staging'' ''/t'' w_stage)) = []
   \<and> http_log (snd (stage_extra_packages env_local [''/l/bad.txt'', ''http://h/r.tar.gz'']
                      ''/staging'' ''/t'' w_stage)) = []"
proof -
  have b: "\<exists>p\<in>set [''/l/bad.txt'', ''http://h/r.tar.gz'']. \<not> supported_extension p"
    by code_simp
  have e: "fst (stage_extra_packages env_local [''/l/bad.txt'', ''http://h/r.tar.gz''] ''/staging'' ''/t'' w_stage)
       = Inl (ExtraPackageBadExtension ''/l/bad.txt'')"
    by code_simp
  have t: "takeWhile supported_extension [''/l/bad.txt'', ''http://h/r.tar.gz''] = []"
    and s0: "staged w_stage = []" and h0: "http_log w_stage = []"
    by code_simp+
  from unsupported_extension_rejected[OF b, of env_local "''/staging''" "''/t''" w_stage] b e
  show ?thesis unfolding t s0 h0 by auto
qed

subsection \<open>Jar packages staged twice\<close>

lemma slash_notin_basename: "CHR ''/'' \<notin> set (basename p)"
proof
  assume "CHR ''/'' \<in> set (basename p)"
  then have "CHR ''/'' \<in> set (takeWhile (\<lambda>c. c \<noteq> CHR ''/'') (rev p))"
    by (simp add: basename_def)
  then show False by (auto dest: set_takeWhileD)
qed

lemma rstrip_slash_prefix: "prefix (rstrip_slash h) h"
proof -
  have "rev h = takeWhile (\<lambda>c. c = CHR ''/'') (rev h) @ dropWhile (\<lambda>c. c = CHR ''/'') (rev h)"
    by simp
  then have "h = rev (dropWhile (\<lambda>c. c = CHR ''/'') (rev h)) @ rev (takeWhile (\<lambda>c. c = CHR ''/'') (rev h))"
    by (metis rev_append rev_rev_ident)
  then show ?thesis unfolding rstrip_slash_def prefix_def by blast
qed

lemma head_prefix: "prefix (rev (dropWhile P (rev p))) p"
proof -
  have "rev p = takeWhile P (rev p) @ dropWhile P (rev p)" by simp
  then have "p = rev (dropWhile P (rev p)) @ rev (takeWhile P (rev p))"
    by (metis rev_append rev_rev_ident)
  then show ?thesis unfolding prefix_def by blast
qed

lemma dirname_prefix: "prefix (dirname p) p"
proof -
  let ?h = "rev (dropWhile (\<lambda>c. c \<noteq> CHR ''/'') (rev p))"
  have "prefix ?h p" by (rule head_prefix)
  moreover have "prefix (rstrip_slash ?h) ?h" by (rule rstrip_slash_prefix)
  ultimately show ?thesis
    by (auto simp: dirname_def Let_def intro: prefix_order.trans)
qed

lemma path_join_tmp:
  "path_join t (''tmp'' @ nm) = path_join t ''tmp'' @ nm"
  by (simp add: path_join_def startswith_def)

lemma path_join_tmp_nonempty:
  assumes "CHR ''/'' \<notin> set nm"
  shows "path_join t (''tmp'' @ nm) \<noteq> [] \<and> last (path_join t (''tmp'' @ nm)) \<noteq> CHR ''/''"
proof -
  have "path_join t (''tmp'' @ nm) = (if t = [] \<or> endswith t ''/'' then t else t @ ''/'') @ ''tmp'' @ nm"
    by (simp add: path_join_def startswith_def)
  moreover have "last (x @ ''tmp'' @ nm) \<noteq> CHR ''/''" for x
    using assms by (cases nm rule: rev_cases) auto
  ultimately show ?thesis by auto
qed

lemma path_join_name:
  assumes "d \<noteq> []" "last d \<noteq> CHR ''/''" "CHR ''/'' \<notin> set n"
  shows "path_join d n = d @ ''/'' @ n"
proof -
  have "\<not> endswith d ''/''"
    using assms(1,2) by (cases d rule: rev_cases) (auto simp: endswith_def suffix_def)
  moreover have "\<not> startswith n ''/''"
    using assms(3) by (cases n) (auto simp: startswith_def)
  ultimately show ?thesis using assms(1) by (simp add: path_join_def)
qed

lemma mkdtemp_loop_result:
  "mkdtemp_loop env n dir w = (Inr std, u) \<Longrightarrow>
     \<exists>k. std = path_join dir (''tmp'' @ tmp_name env k) \<and> fs u = (fs w)(std \<mapsto> []) \<and> fs w std = None"
proof (induction n arbitrary: w)
  case 0
  then show ?case by simp
next
  case (Suc n)
  define cand where "cand = path_join dir (''tmp'' @ tmp_name env (tmp_seq w))"
  define w1 where "w1 = w\<lparr>tmp_seq := Suc (tmp_seq w)\<rparr>"
  have step: "mkdtemp_loop env (Suc n) dir w =
      (case mkdir cand w1 of
         (Inr u, w2) \<Rightarrow> (Inr cand, w2)
       | (Inl e, w2) \<Rightarrow> (case e of FileExistsError p \<Rightarrow> mkdtemp_loop env n dir w2
                                  | _ \<Rightarrow> (Inl e, w2)))"
    unfolding cand_def w1_def by (simp only: mkdtemp_loop.simps Let_def)
  have fw: "fs w1 = fs w" by (simp add: w1_def)
  show ?case
  proof (cases "exists (fs w) cand")
    case True
    then have "mkdir cand w1 = (Inl (FileExistsError cand), w1)" by (simp add: mkdir_def fw)
    with Suc.prems have "mkdtemp_loop env n dir w1 = (Inr std, u)"
      unfolding step by simp
    from Suc.IH[OF this] show ?thesis unfolding fw .
  next
    case False
    show ?thesis
    proof (cases "isdir (fs w) (dirname cand)")
      case nd: False
      with False have "mkdir cand w1 = (Inl (FileNotFoundError cand), w1)" by (simp add: mkdir_def fw)
      with Suc.prems show ?thesis unfolding step by simp
    next
      case True
      with False have "mkdir cand w1 = (Inr (), w1\<lparr>fs := (fs w1)(cand \<mapsto> [])\<rparr>)"
        by (simp add: mkdir_def fw)
      with Suc.prems have s: "std = cand" and u: "u = w1\<lparr>fs := (fs w1)(cand \<mapsto> [])\<rparr>"
        unfolding step by auto
      from False have n: "fs w cand = None" by (simp add: exists_def isdir_def)
      have "std = path_join dir (''tmp'' @ tmp_name env (tmp_seq w))"
        unfolding s cand_def ..
      moreover have "fs u = (fs w)(std \<mapsto> [])" unfolding u s by (simp add: fw)
      moreover have "fs w std = None" unfolding s by (rule n)
      ultimately show ?thesis by blast
    qed
  qed
qed

lemma mkdtemp_result:
  "mkdtemp env (Some tmp) w = (Inr std, u) \<Longrightarrow>
     \<exists>k. std = path_join tmp (''tmp'' @ tmp_name env k) \<and> fs u = (fs w)(std \<mapsto> []) \<and> fs w std = None"
  unfolding mkdtemp_def option.case by (rule mkdtemp_loop_result)

lemma map_fst_put_entry:
  "map fst (put_entry n c es) = (if n \<in> set (map fst es) then map fst es else map fst es @ [n])"
  by (auto simp: put_entry_def intro!: map_idI split: prod.splits)

lemma isfile_other_dir:
  "dirname p \<noteq> d \<Longrightarrow> isfile (f(d \<mapsto> es)) p = isfile f p"
  by (simp add: isfile_def)

lemma endswith_nonempty: "endswith s ''.jar'' \<Longrightarrow> s \<noteq> []"
  by (auto simp: endswith_def suffix_def)

text \<open>A download that succeeds for a package that is not a local file writes one entry.\<close>

lemma download_into:
  assumes dir: "fs w std = Some es"
    and nf: "\<not> isfile (fs w) p"
    and std: "std \<noteq> []" "last std \<noteq> CHR ''/''"
    and n: "n \<noteq> []" "CHR ''/'' \<notin> set n"
    and ok: "download_file env p (path_join std n) w = (Inr u, w')"
  shows "\<exists>c. fs w' = (fs w)(std \<mapsto> put_entry n c es)"
proof -
  have pj: "path_join std n = std @ ''/'' @ n" using std n(2) by (rule path_join_name)
  have dn: "dirname (path_join std n) = std"
    unfolding pj using n(2) std by (rule dirname_append_slash)
  have bn: "basename (path_join std n) = n"
    unfolding pj using n(2) by (rule basename_append_slash)
  show ?thesis
  proof (cases "startswith p ''http://'' \<or> startswith p ''https://''")
    case True
    with ok obtain status content where
      w: "write_file (path_join std n) content (w\<lparr>http_log := http_log w @ [p]\<rparr>) = (Inr u, w')"
      by (auto simp: download_file_def Let_def split: sum.splits prod.splits if_splits)
    then have "fs w' = (fs w)(std \<mapsto> put_entry n content es)"
      by (auto simp: write_file_def dn bn dir split: if_splits)
    then show ?thesis by blast
  next
    case False
    have "isdir (fs w) (dirname (path_join std n))" by (simp add: dn isdir_def dir)
    with False nf have "download_file env p (path_join std n) w = (Inl (FileNotFoundError p), w)"
      by (simp add: download_file_def bindE_def copyfile_def)
    with ok show ?thesis by simp
  qed
qed


lemma jar_loop_result:
  assumes j: "fs_join env = path_join"
    and sp: "\<forall>p. fs_split env p = Inr (dirname p, basename p)"
    and std: "std \<noteq> []" "last std \<noteq> CHR ''/''"
  shows "fs w std = Some es \<Longrightarrow> \<forall>p\<in>set pkgs. dirname p \<noteq> std \<Longrightarrow>
     jar_packages_loop env std pkgs acc w = (Inr lp, w') \<Longrightarrow>
     lp = acc @ filter (isfile (fs w)) pkgs
     \<and> (\<exists>es'. fs w' = (fs w)(std \<mapsto> es')
            \<and> map fst es' = add_names (map fst es)
                  (map basename (filter (\<lambda>p. \<not> isfile (fs w) p) pkgs)))
     \<and> (\<forall>p\<in>set pkgs. endswith (basename p) ''.jar'')"
proof (induction pkgs arbitrary: acc w es)
  case Nil
  then have a: "lp = acc" "w' = w" by simp_all
  have "fs w = (fs w)(std \<mapsto> es)" using Nil.prems(1) by (simp add: fun_upd_idem)
  then have "\<exists>es'. fs w' = (fs w)(std \<mapsto> es')
            \<and> map fst es' = add_names (map fst es)
                  (map basename (filter (\<lambda>p. \<not> isfile (fs w) p) []))"
    unfolding a by (intro exI[of _ es]) simp
  moreover have "lp = acc @ filter (isfile (fs w)) []" using a by simp
  moreover have "\<forall>p\<in>set ([]::string list). endswith (basename p) ''.jar''" by simp
  ultimately show ?case by blast
next
  case (Cons p ps)
  note dir = Cons.prems(1) and out = Cons.prems(2) and run = Cons.prems(3)
  from out have outp: "dirname p \<noteq> std" and outps: "\<forall>q\<in>set ps. dirname q \<noteq> std" by simp_all
  have jar: "endswith (basename p) ''.jar''"
  proof (rule ccontr)
    assume "\<not> endswith (basename p) ''.jar''"
    with run show False by simp
  qed
  show ?case
  proof (cases "isfile (fs w) p")
    case True
    with run jar have "jar_packages_loop env std ps (acc @ [p]) w = (Inr lp, w')" by simp
    from Cons.IH[OF dir outps this] True jar show ?thesis by simp
  next
    case False
    have rem: "is_remote_path p"
    proof (rule ccontr)
      assume "\<not> is_remote_path p"
      with run jar False show False by simp
    qed
    let ?n = "basename p"
    obtain r w1 where d: "download_file env p (path_join std ?n) w = (r, w1)"
      by (cases "download_file env p (path_join std ?n) w")
    have unfold: "jar_packages_loop env std (p # ps) acc w =
        (case download_file env p (path_join std ?n) w of
           (Inl e, w1) \<Rightarrow> (Inl e, w1)
         | (Inr u, w1) \<Rightarrow> jar_packages_loop env std ps acc w1)"
      using jar False rem sp j by (simp add: Let_def)
    from run d obtain u where r: "r = Inr u" and rest: "jar_packages_loop env std ps acc w1 = (Inr lp, w')"
      unfolding unfold by (cases r) auto
    have n: "?n \<noteq> []" "CHR ''/'' \<notin> set ?n"
      using jar endswith_nonempty slash_notin_basename by auto
    from download_into[OF dir False std n d[unfolded r]] obtain c where
      f1: "fs w1 = (fs w)(std \<mapsto> put_entry ?n c es)" by blast
    then have dir1: "fs w1 std = Some (put_entry ?n c es)" by simp
    have same: "\<And>q. q \<in> set ps \<Longrightarrow> isfile (fs w1) q = isfile (fs w) q"
      using outps by (simp add: f1 isfile_other_dir)
    then have flt: "filter (isfile (fs w1)) ps = filter (isfile (fs w)) ps"
      and nflt: "filter (\<lambda>p. \<not> isfile (fs w1) p) ps = filter (\<lambda>p. \<not> isfile (fs w) p) ps"
      by (auto intro: filter_cong)
    from Cons.IH[OF dir1 outps rest] obtain es' where
      lp: "lp = acc @ filter (isfile (fs w1)) ps"
      and f': "fs w' = (fs w1)(std \<mapsto> es')"
      and nm: "map fst es' = add_names (map fst (put_entry ?n c es))
                  (map basename (filter (\<lambda>p. \<not> isfile (fs w1) p) ps))"
      and jars: "\<forall>p\<in>set ps. endswith (basename p) ''.jar''"
      by blast
    have c1: "lp = acc @ filter (isfile (fs w)) (p # ps)" using lp flt False by simp
    have c2: "fs w' = (fs w)(std \<mapsto> es')" using f' f1 by simp
    have c3: "map fst es' = add_names (map fst es)
                  (map basename (filter (\<lambda>p. \<not> isfile (fs w) p) (p # ps)))"
      using nm nflt False by (simp add: map_fst_put_entry)
    from c2 c3 have ex: "\<exists>es'. fs w' = (fs w)(std \<mapsto> es')
            \<and> map fst es' = add_names (map fst es)
                  (map basename (filter (\<lambda>p. \<not> isfile (fs w) p) (p # ps)))"
      by blast
    have c4: "\<forall>q\<in>set (p # ps). endswith (basename q) ''.jar''" using jar jars by simp
    from c1 ex c4 show ?thesis by blast
  qed
qed

lemma set_add_names: "set (add_names ns new) = set ns \<union> set new"
  by (induction new arbitrary: ns) auto

lemma stage_packages_fs:
  "stage_packages env loc ps acc w = (r, w') \<Longrightarrow> fs w' = fs w"
proof (induction ps arbitrary: acc w)
  case Nil
  then show ?case by simp
next
  case (Cons p ps)
  obtain r1 w1 where h: "stage_artifact env p (fs_join env loc (basename p)) w = (r1, w1)"
    by (cases "stage_artifact env p (fs_join env loc (basename p)) w")
  then have f: "fs w1 = fs w" by (auto simp: stage_artifact_def split: option.splits)
  show ?case
  proof (cases r1)
    case (Inl e)
    with Cons.prems h f show ?thesis by (simp add: Let_def)
  next
    case (Inr u)
    with Cons.prems h have "stage_packages env loc ps (acc @ [basename p]) w1 = (r, w')"
      by (simp add: Let_def)
    from Cons.IH[OF this] f show ?thesis by simp
  qed
qed

lemma jar_names_cong:
  "(\<And>p. p \<in> set pkgs \<Longrightarrow> isfile f p = isfile g p) \<Longrightarrow> jar_names env f pkgs = jar_names env g pkgs"
proof -
  assume a: "\<And>p. p \<in> set pkgs \<Longrightarrow> isfile f p = isfile g p"
  then have "filter (isfile f) pkgs = filter (isfile g) pkgs"
    and "filter (\<lambda>p. \<not> isfile f p) pkgs = filter (\<lambda>p. \<not> isfile g p) pkgs"
    by (auto intro: filter_cong)
  then show ?thesis by (simp add: jar_names_def)
qed

lemma stage_jar_result:
  assumes j: "fs_join env = path_join"
    and sp: "\<forall>p. fs_split env p = Inr (dirname p, basename p)"
    and names: "\<forall>k. CHR ''/'' \<notin> set (tmp_name env k)"
    and out: "\<forall>p\<in>set pkgs. \<not> prefix (path_join tmp ''tmp'') p"
    and run: "stage_jar_packages env pkgs loc tmp w = (Inr r, w')"
  shows "r = jar_names env (fs w) pkgs
       \<and> (\<exists>std es'. fs w' = (fs w)(std \<mapsto> es') \<and> (\<forall>p\<in>set pkgs. dirname p \<noteq> std))
       \<and> (\<forall>p\<in>set pkgs. endswith (basename p) ''.jar'')"
proof -
  from run obtain std u lp w2 nms w3 where
        m: "mkdtemp env (Some tmp) w = (Inr std, u)"
    and l: "jar_packages_loop env std pkgs [] u = (Inr lp, w2)"
    and ls: "listdir env std w2 = (Inr nms, w3)"
    and st: "stage_packages env loc (lp @ map (fs_join env std) nms) [] w3 = (Inr r, w')"
    unfolding stage_jar_packages_def by (elim bindE_InrE)
  from mkdtemp_result[OF m] obtain k where
        sd: "std = path_join tmp (''tmp'' @ tmp_name env k)"
    and fu: "fs u = (fs w)(std \<mapsto> [])" by blast
  from names have nk: "CHR ''/'' \<notin> set (tmp_name env k)" by simp
  from path_join_tmp_nonempty[OF nk, of tmp] have std: "std \<noteq> []" "last std \<noteq> CHR ''/''"
    unfolding sd by simp_all
  have pre: "prefix (path_join tmp ''tmp'') std"
    unfolding sd path_join_tmp by simp
  have outd: "\<forall>p\<in>set pkgs. dirname p \<noteq> std"
  proof
    fix p assume p: "p \<in> set pkgs"
    show "dirname p \<noteq> std"
    proof
      assume "dirname p = std"
      with dirname_prefix[of p] have "prefix std p" by simp
      with pre have "prefix (path_join tmp ''tmp'') p" by (rule prefix_order.trans)
      with out p show False by blast
    qed
  qed
  have du: "fs u std = Some []" by (simp add: fu)
  from jar_loop_result[OF j sp std du outd l] obtain es' where
        lp: "lp = filter (isfile (fs u)) pkgs"
    and f2: "fs w2 = (fs u)(std \<mapsto> es')"
    and nm: "map fst es' = add_names [] (map basename (filter (\<lambda>p. \<not> isfile (fs u) p) pkgs))"
    and jars: "\<forall>p\<in>set pkgs. endswith (basename p) ''.jar''"
    by auto
  have same: "\<And>p. p \<in> set pkgs \<Longrightarrow> isfile (fs u) p = isfile (fs w) p"
    using outd by (simp add: fu isfile_other_dir)
  then have flt: "filter (isfile (fs u)) pkgs = filter (isfile (fs w)) pkgs"
    and nflt: "filter (\<lambda>p. \<not> isfile (fs u) p) pkgs = filter (\<lambda>p. \<not> isfile (fs w) p) pkgs"
    by (auto intro: filter_cong)
  from ls f2 have nms: "nms = sort_key (listdir_key env) (map fst es')" and w3: "w3 = w2"
    by (auto simp: listdir_def)
  have slash: "\<And>n. n \<in> set nms \<Longrightarrow> CHR ''/'' \<notin> set n"
    unfolding nms nm using slash_notin_basename by (auto simp: set_add_names)
  have bk: "map (\<lambda>n. basename (path_join std n)) nms = nms"
  proof (rule map_idI)
    fix n assume "n \<in> set nms"
    then have s: "CHR ''/'' \<notin> set n" by (rule slash)
    show "basename (path_join std n) = n"
      unfolding path_join_name[OF std s] using s by (rule basename_append_slash)
  qed
  from stage_packages_result[OF st]
  have "r = map basename lp @ map (\<lambda>n. basename (path_join std n)) nms"
    by (simp add: j comp_def)
  then have "r = map basename lp @ nms" unfolding bk .
  then have r: "r = jar_names env (fs w) pkgs"
    unfolding lp nms nm flt nflt by (simp add: jar_names_def)
  from stage_packages_fs[OF st] w3 f2 fu have "fs w' = (fs w)(std \<mapsto> es')" by simp
  with outd have "\<exists>std es'. fs w' = (fs w)(std \<mapsto> es') \<and> (\<forall>p\<in>set pkgs. dirname p \<noteq> std)"
    by blast
  with r jars show ?thesis by blast
qed

lemma jar_names_end_in_jar:
  assumes "\<forall>p\<in>set pkgs. endswith (basename p) ''.jar''"
  shows "\<forall>n\<in>set (jar_names env f pkgs). endswith n ''.jar''"
  using assms by (auto simp: jar_names_def set_add_names)

text \<open>
  C8. When \<^verbatim>\<open>FileSystems.join\<close> and \<^verbatim>\<open>FileSystems.split\<close> behave as \<^verbatim>\<open>os.path\<close>, temporary names
  contain no slash, and no package lies inside a temporary directory below the \<open>temp_dir\<close>
  of a call: two calls of \<^verbatim>\<open>_stage_jar_packages\<close> on the same list, the second in the
  world the first one left, that both return, return the same list of names, and every
  name ends in \<^verbatim>\<open>.jar\<close>.
\<close>

theorem jar_packages_twice:
  assumes j: "fs_join env = path_join"
    and sp: "\<forall>p. fs_split env p = Inr (dirname p, basename p)"
    and names: "\<forall>k. CHR ''/'' \<notin> set (tmp_name env k)"
    and out1: "\<forall>p\<in>set pkgs. \<not> prefix (path_join tmp1 ''tmp'') p"
    and out2: "\<forall>p\<in>set pkgs. \<not> prefix (path_join tmp2 ''tmp'') p"
    and run1: "stage_jar_packages env pkgs loc tmp1 w = (Inr r1, w1)"
    and run2: "stage_jar_packages env pkgs loc tmp2 w1 = (Inr r2, w2)"
  shows "r1 = r2 \<and> (\<forall>n\<in>set r1. endswith n ''.jar'')"
proof -
  from stage_jar_result[OF j sp names out1 run1] obtain std es' where
        r1: "r1 = jar_names env (fs w) pkgs"
    and f1: "fs w1 = (fs w)(std \<mapsto> es')"
    and od: "\<forall>p\<in>set pkgs. dirname p \<noteq> std"
    and jars: "\<forall>p\<in>set pkgs. endswith (basename p) ''.jar''"
    by blast
  from stage_jar_result[OF j sp names out2 run2] have r2: "r2 = jar_names env (fs w1) pkgs"
    by blast
  have "jar_names env (fs w1) pkgs = jar_names env (fs w) pkgs"
    by (rule jar_names_cong) (use od in \<open>simp add: f1 isfile_other_dir\<close>)
  with r1 r2 have "r1 = r2" by simp
  moreover from jar_names_end_in_jar[OF jars] r1 have "\<forall>n\<in>set r1. endswith n ''.jar''" by simp
  ultimately show ?thesis by blast
qed


theorem jar_packages_twice_witness:
  "fs_join env_local = path_join
   \<and> (\<forall>p. fs_split env_local p = Inr (dirname p, basename p))
   \<and> (\<forall>k. CHR ''/'' \<notin> set (tmp_name env_local k))
   \<and> \<not> prefix (path_join ''/t'' ''tmp'') ''http://h/r.jar''
   \<and> \<not> prefix (path_join ''/t'' ''tmp'') ''/l/b.jar''
   \<and> \<not> prefix (path_join ''/t'' ''tmp'') ''http://h/q.jar''
   \<and> fst (stage_jar_packages env_local [''http://h/r.jar'', ''/l/b.jar'', ''http://h/q.jar'']
             ''/staging'' ''/t'' w_stage) = Inr [''b.jar'', ''r.jar'', ''q.jar'']
   \<and> fst (stage_jar_packages env_local [''http://h/r.jar'', ''/l/b.jar'', ''http://h/q.jar'']
             ''/staging'' ''/t''
             (snd (stage_jar_packages env_local [''http://h/r.jar'', ''/l/b.jar'', ''http://h/q.jar'']
                     ''/staging'' ''/t'' w_stage))) = Inr [''b.jar'', ''r.jar'', ''q.jar'']"
proof -
  let ?pkgs = "[''http://h/r.jar'', ''/l/b.jar'', ''http://h/q.jar'']"
  let ?one = "stage_jar_packages env_local ?pkgs ''/staging'' ''/t'' w_stage"
  let ?two = "stage_jar_packages env_local ?pkgs ''/staging'' ''/t'' (snd ?one)"
  have j: "fs_join env_local = path_join" by (simp add: env_local_def)
  have sp: "\<forall>p. fs_split env_local p = Inr (dirname p, basename p)" by (simp add: env_local_def)
  have nm: "\<forall>k. CHR ''/'' \<notin> set (tmp_name env_local k)" by (simp add: env_local_def)
  have out: "\<forall>p\<in>set ?pkgs. \<not> prefix (path_join ''/t'' ''tmp'') p" by code_simp
  have f1: "fst ?one = Inr [''b.jar'', ''r.jar'', ''q.jar'']" by code_simp
  have f2: "\<not> isl (fst ?two)" by code_simp
  from f1 have run1: "?one = (Inr [''b.jar'', ''r.jar'', ''q.jar''], snd ?one)"
    by (metis prod.collapse)
  from f2 obtain r2 where "fst ?two = Inr r2" by (cases "fst ?two") auto
  then have run2: "?two = (Inr r2, snd ?two)" by (metis prod.collapse)
  from jar_packages_twice[OF j sp nm out out run1 run2] have "[''b.jar'', ''r.jar'', ''q.jar''] = r2"
    by blast
  with \<open>fst ?two = Inr r2\<close> have "fst ?two = Inr [''b.jar'', ''r.jar'', ''q.jar'']" by simp
  moreover have "\<not> prefix (path_join ''/t'' ''tmp'') ''http://h/r.jar''"
    and "\<not> prefix (path_join ''/t'' ''tmp'') ''/l/b.jar''"
    and "\<not> prefix (path_join ''/t'' ''tmp'') ''http://h/q.jar''"
    using out by simp_all
  ultimately show ?thesis using j sp nm f1 by blast
qed

end
